theory Spec2Isabelle
  imports
    Complex_Main
    "HOL-Library.Multiset"
    "HOL-Library.Char_ord"
    "HOL-Library.List_Lexorder"
    "HOL-Library.Product_Lexorder"
begin

section \<open>Values that cross the HTTP boundary\<close>

text \<open>
  A request body is parsed JSON. A JavaScript number is modelled as a rational; a
  property that is absent reads as \<open>undefined\<close>, which is \<open>None\<close> of
  \<open>json option\<close>. When a key occurs twice in an object, the last occurrence is
  the one a JavaScript object keeps.
\<close>

datatype json =
    JNull
  | JBool bool
  | JNum rat
  | JStr string
  | JArr "json list"
  | JObj "(string \<times> json) list"

fun getProp :: "string \<Rightarrow> json \<Rightarrow> json option" where
  "getProp k (JObj kvs) = map_of (rev kvs) k"
| "getProp k _ = None"

fun typeName :: "json \<Rightarrow> string" where
  "typeName JNull = ''null''"
| "typeName (JBool _) = ''boolean''"
| "typeName (JNum _) = ''number''"
| "typeName (JStr _) = ''string''"
| "typeName (JArr _) = ''array''"
| "typeName (JObj _) = ''object''"

text \<open>
  \<open>String.prototype.trim\<close> on the characters a \<open>char\<close> can hold: tab, line
  feed, vertical tab, form feed, carriage return, space and no-break space.
\<close>

definition isWhiteSpace :: "char \<Rightarrow> bool" where
  "isWhiteSpace c \<longleftrightarrow>
     c \<in> set [CHR 0x09, CHR 0x0A, CHR 0x0B, CHR 0x0C, CHR 0x0D, CHR 0x20, CHR 0xA0]"

definition trim :: "string \<Rightarrow> string" where
  "trim s = rev (dropWhile isWhiteSpace (rev (dropWhile isWhiteSpace s)))"

section \<open>The validation library\<close>

text \<open>
  A schema maps a value (or \<open>undefined\<close>) to the parsed data or to the message of
  the first issue, which is all the handlers read of a validation error
  (\<open>error.errors[0].message\<close>). Issues are raised in the order of the checks of a
  schema and of the keys of an object schema.
\<close>

type_synonym 'a parsed = "string + 'a"

definition bindE :: "'e + 'a \<Rightarrow> ('a \<Rightarrow> 'e + 'b) \<Rightarrow> 'e + 'b" where
  "bindE m f = (case m of Inl e \<Rightarrow> Inl e | Inr a \<Rightarrow> f a)"

definition invalid_type :: "string \<Rightarrow> json option \<Rightarrow> string" where
  "invalid_type expected v =
     (case v of
        None \<Rightarrow> ''Required''
      | Some j \<Rightarrow> ''Expected '' @ expected @ '', received '' @ typeName j)"

definition zString :: "json option \<Rightarrow> string parsed" where
  "zString v = (case v of Some (JStr s) \<Rightarrow> Inr s | _ \<Rightarrow> Inl (invalid_type ''string'' v))"

definition zNumber :: "json option \<Rightarrow> rat parsed" where
  "zNumber v = (case v of Some (JNum r) \<Rightarrow> Inr r | _ \<Rightarrow> Inl (invalid_type ''number'' v))"

definition zBoolean :: "json option \<Rightarrow> bool parsed" where
  "zBoolean v = (case v of Some (JBool b) \<Rightarrow> Inr b | _ \<Rightarrow> Inl (invalid_type ''boolean'' v))"

definition zInt :: "json option \<Rightarrow> int parsed" where
  "zInt v =
     bindE (zNumber v) (\<lambda>r.
       if r = of_int \<lfloor>r\<rfloor> then Inr \<lfloor>r\<rfloor> else Inl ''Expected integer, received float'')"

definition zOptional :: "(json option \<Rightarrow> 'a parsed) \<Rightarrow> json option \<Rightarrow> 'a option parsed" where
  "zOptional schema v =
     (case v of None \<Rightarrow> Inr None | Some _ \<Rightarrow> bindE (schema v) (\<lambda>a. Inr (Some a)))"

definition zDefault :: "'a \<Rightarrow> (json option \<Rightarrow> 'a parsed) \<Rightarrow> json option \<Rightarrow> 'a parsed" where
  "zDefault d schema v = (case v of None \<Rightarrow> Inr d | Some _ \<Rightarrow> schema v)"

definition quoted :: "string \<Rightarrow> string" where
  "quoted s = [CHR 0x27] @ s @ [CHR 0x27]"

fun joinWith :: "string \<Rightarrow> string list \<Rightarrow> string" where
  "joinWith sep [] = []"
| "joinWith sep [x] = x"
| "joinWith sep (x # y # ys) = x @ sep @ joinWith sep (y # ys)"

definition zEnum :: "string list \<Rightarrow> json option \<Rightarrow> string parsed" where
  "zEnum options v =
     (case v of
        Some (JStr s) \<Rightarrow>
          if s \<in> set options then Inr s
          else Inl (''Invalid enum value. Expected '' @ joinWith '' | '' (map quoted options)
                      @ '', received '' @ quoted s)
      | _ \<Rightarrow> Inl (invalid_type (joinWith '' | '' (map quoted options)) v))"

text \<open>An object schema first asks for an object; unknown keys are dropped.\<close>

definition zObject :: "(json \<Rightarrow> 'a parsed) \<Rightarrow> json option \<Rightarrow> 'a parsed" where
  "zObject fields v =
     (case v of Some (JObj kvs) \<Rightarrow> fields (JObj kvs) | _ \<Rightarrow> Inl (invalid_type ''object'' v))"

fun parseAll :: "(json option \<Rightarrow> 'a parsed) \<Rightarrow> json list \<Rightarrow> 'a list parsed" where
  "parseAll schema [] = Inr []"
| "parseAll schema (j # js) =
     bindE (schema (Some j)) (\<lambda>a. bindE (parseAll schema js) (\<lambda>as. Inr (a # as)))"

text \<open>
  An array schema checks the type, then its length bound (\<open>min\<close>, with the source's
  message), then the elements in order.
\<close>

definition zArray ::
  "(nat \<times> string) option \<Rightarrow> (json option \<Rightarrow> 'a parsed) \<Rightarrow> json option \<Rightarrow> 'a list parsed" where
  "zArray minimum schema v =
     (case v of
        Some (JArr js) \<Rightarrow>
          (case minimum of
             Some (n, msg) \<Rightarrow> if length js < n then Inl msg else parseAll schema js
           | None \<Rightarrow> parseAll schema js)
      | _ \<Rightarrow> Inl (invalid_type ''array'' v))"

section \<open>Documents and the store\<close>

type_synonym objectId = string

text \<open>
  The document types are declared by the models, which the controllers import. The
  fields below are the ones the controllers read or write; \<open>createdAt\<close> is the
  timestamp the list endpoints sort by.
\<close>

record categoryDoc =
  c_id :: objectId
  c_name :: string
  c_iconUrl :: "string option"
  c_sort :: int
  c_isActive :: bool

record unitPrice =
  up_unit :: string
  up_step :: rat
  up_baseQty :: rat
  up_price :: rat
  up_compareAt :: "rat option"
  up_stock :: rat

record productDoc =
  p_id :: objectId
  p_name :: string
  p_categoryId :: objectId
  p_images :: "string list"
  p_description :: "string option"
  p_unitPrices :: "unitPrice list"
  p_rating :: "rat option"
  p_isActive :: bool
  p_createdAt :: nat

record orderDoc =
  o_id :: objectId
  o_userId :: objectId
  o_status :: string
  o_total :: rat
  o_createdAt :: nat

record userDoc =
  u_id :: objectId
  u_name :: string
  u_email :: string
  u_phone :: "string option"
  u_passwordHash :: "string option"
  u_role :: string
  u_avatarUrl :: "string option"

text \<open>The collections, each in insertion order.\<close>

record store =
  categories :: "categoryDoc list"
  products :: "productDoc list"
  orders :: "orderDoc list"
  users :: "userDoc list"

section \<open>Requests and responses\<close>

datatype verb = GET | POST | PUT | PATCH | DELETE

record request =
  reqMethod :: verb
  reqPath :: "string list"
  params :: "(string \<times> string) list"
  query :: "(string \<times> string) list"
  authorization :: "string option"
  body :: "json option"

text \<open>What \<open>populate\<close> puts in place of a reference: the selected fields, or null.\<close>

type_synonym categoryRef = "(objectId \<times> string) option"
type_synonym userRef = "(objectId \<times> string \<times> string \<times> string option) option"

record userView =
  v_id :: objectId
  v_name :: string
  v_email :: string
  v_avatarUrl :: "string option"
  v_role :: string

record orderStats =
  totalOrders :: nat
  pendingOrders :: nat
  deliveredOrders :: nat
  cancelledOrders :: nat
  revenue :: rat

datatype payload =
    CategoryList "categoryDoc list"
  | Category categoryDoc
  | ProductList "(productDoc \<times> categoryRef) list"
  | Product "(productDoc \<times> categoryRef) option"
  | OrderList "(orderDoc \<times> userRef) list"
  | Order "(orderDoc \<times> userRef) option"
  | Stats orderStats
  | Login userView string string
  | Profile userView

text \<open>
  The paging block of a list response. A JavaScript number that is \<open>NaN\<close> or
  infinite is \<open>None\<close> (JSON writes it as null).
\<close>

record pageMeta =
  m_total :: nat
  m_page :: "int option"
  m_limit :: "int option"
  m_pages :: "int option"

record response =
  status :: nat
  success :: bool
  error :: "string option"
  message :: "string option"
  data :: "payload option"
  meta :: "pageMeta option"

text \<open>\<open>res.json\<close> without \<open>res.status\<close> answers 200.\<close>

definition succeed :: "nat \<Rightarrow> response" where
  "succeed code =
     \<lparr>status = code, success = True, error = None, message = None, data = None, meta = None\<rparr>"

definition failure :: "nat \<Rightarrow> string \<Rightarrow> response" where
  "failure code msg =
     \<lparr>status = code, success = False, error = Some msg, message = None, data = None,
      meta = None\<rparr>"

text \<open>What a handler's \<open>try\<close> block can throw.\<close>

datatype exn = ZodError string | CastError | ValidationError | Error string

section \<open>What the controllers take from outside these files\<close>

text \<open>
  The result of running a middleware or a controller on a request: it answers, or it
  calls \<open>next\<close> and hands the request on.
\<close>

datatype step = Respond response | Next request

text \<open>
  The environment of a call collects what the source files import or read and do not
  define: the process environment, the clock and the identifier given to a created
  document, the library predicates and functions, the models' own acceptance of a
  document that is written (schema validators and indexes live in the model files),
  the driver's reading of \<open>limit\<close> and \<open>skip\<close>, and the two middlewares.
  \<^item> \<open>jwtVerify token secret\<close> is \<open>None\<close> when verification throws, else
    the \<open>userId\<close> of the payload (\<open>None\<close> when the payload has none);
  \<^item> \<open>newRegExp q\<close> is \<open>None\<close> when the pattern does not compile, else the
    case-insensitive test of the pattern on a string;
  \<^item> \<open>paginate limit skip\<close> is \<open>None\<close> when the query is rejected, else how
    many documents are skipped and the cap on how many are returned, if there is one.
\<close>

record env =
  JWT_SECRET :: "string option"
  newObjectId :: objectId
  now :: nat
  isUrl :: "string \<Rightarrow> bool"
  isEmail :: "string \<Rightarrow> bool"
  bcryptCompare :: "string \<Rightarrow> string \<Rightarrow> bool"
  jwtSign :: "string \<Rightarrow> string \<Rightarrow> string \<Rightarrow> string"
  jwtVerify :: "string \<Rightarrow> string \<Rightarrow> string option option"
  newRegExp :: "string \<Rightarrow> (string \<Rightarrow> bool) option"
  paginate :: "int option \<Rightarrow> int option \<Rightarrow> (nat \<times> nat option) option"
  CategoryModel :: "categoryDoc list \<Rightarrow> categoryDoc \<Rightarrow> bool"
  ProductModel :: "productDoc list \<Rightarrow> productDoc \<Rightarrow> bool"
  OrderModel :: "orderDoc list \<Rightarrow> orderDoc \<Rightarrow> bool"
  authenticateToken :: "store \<Rightarrow> request \<Rightarrow> step"
  requireAdmin :: "store \<Rightarrow> request \<Rightarrow> step"

section \<open>The object-document mapper\<close>

definition isHexDigit :: "char \<Rightarrow> bool" where
  "isHexDigit c \<longleftrightarrow> c \<in> set ''0123456789abcdefABCDEF''"

definition lowerHex :: "char \<Rightarrow> char" where
  "lowerHex c = (case map_of (zip ''ABCDEF'' ''abcdef'') c of Some l \<Rightarrow> l | None \<Rightarrow> c)"

text \<open>
  A string is cast to an identifier when it is 24 hexadecimal digits; the case of the
  digits does not matter to the identifier.
\<close>

definition castObjectId :: "string \<Rightarrow> objectId option" where
  "castObjectId s =
     (if length s = 24 \<and> list_all isHexDigit s then Some (map lowerHex s) else None)"

definition findById :: "('a \<Rightarrow> objectId) \<Rightarrow> 'a list \<Rightarrow> string option \<Rightarrow> exn + 'a option" where
  "findById idOf docs i =
     (case i of
        None \<Rightarrow> Inr None
      | Some s \<Rightarrow>
          (case castObjectId s of
             None \<Rightarrow> Inl CastError
           | Some oid \<Rightarrow> Inr (find (\<lambda>d. idOf d = oid) docs)))"

definition findOne :: "('a \<Rightarrow> bool) \<Rightarrow> 'a list \<Rightarrow> 'a option" where
  "findOne cond docs = find cond docs"

definition countDocuments :: "('a \<Rightarrow> bool) \<Rightarrow> 'a list \<Rightarrow> nat" where
  "countDocuments cond docs = length (filter cond docs)"

text \<open>\<open>save\<close> writes the document over the stored one with its identifier.\<close>

fun saveDoc :: "('a \<Rightarrow> objectId) \<Rightarrow> 'a \<Rightarrow> 'a list \<Rightarrow> 'a list" where
  "saveDoc idOf d [] = []"
| "saveDoc idOf d (x # xs) = (if idOf x = idOf d then d # xs else x # saveDoc idOf d xs)"

fun deleteDoc :: "('a \<Rightarrow> objectId) \<Rightarrow> objectId \<Rightarrow> 'a list \<Rightarrow> 'a list" where
  "deleteDoc idOf i [] = []"
| "deleteDoc idOf i (x # xs) = (if idOf x = i then xs else x # deleteDoc idOf i xs)"

definition findByIdAndDelete ::
  "('a \<Rightarrow> objectId) \<Rightarrow> 'a list \<Rightarrow> string option \<Rightarrow> exn + 'a list" where
  "findByIdAndDelete idOf docs i =
     (case i of
        None \<Rightarrow> Inr docs
      | Some s \<Rightarrow>
          (case castObjectId s of
             None \<Rightarrow> Inl CastError
           | Some oid \<Rightarrow> Inr (deleteDoc idOf oid docs)))"

text \<open>
  A \<open>try\<close> block ends with a response or with something thrown, and leaves a store;
  the \<open>catch\<close> block turns what was thrown into a response.
\<close>

type_synonym attempt = "(exn + response) \<times> store"

definition catching :: "(exn \<Rightarrow> response) \<Rightarrow> attempt \<Rightarrow> response \<times> store" where
  "catching handler out =
     (case out of (Inl e, s) \<Rightarrow> (handler e, s) | (Inr r, s) \<Rightarrow> (r, s))"

definition zodOr500 :: "string \<Rightarrow> exn \<Rightarrow> response" where
  "zodOr500 msg e = (case e of ZodError m \<Rightarrow> failure 400 m | _ \<Rightarrow> failure 500 msg)"

definition param :: "string \<Rightarrow> request \<Rightarrow> string option" where
  "param k req = map_of (params req) k"

section \<open>controllers/categories.ts\<close>

record categoryInput =
  ci_name :: string
  ci_iconUrl :: "string option"
  ci_sort :: int
  ci_isActive :: bool

record categoryPatch =
  cp_name :: "string option"
  cp_iconUrl :: "string option"
  cp_sort :: "int option"
  cp_isActive :: "bool option"

text \<open>
  \<open>z.string().min(1, 'Name is required').trim()\<close>: the length is checked on the
  string as submitted, and the string is trimmed after that.
\<close>

definition requiredName :: "json option \<Rightarrow> string parsed" where
  "requiredName v =
     bindE (zString v) (\<lambda>s. if length s < 1 then Inl ''Name is required'' else Inr (trim s))"

text \<open>
  \<open>z.string().url('Invalid URL').optional().or(z.literal(''))\<close>: an absent value
  and a URL pass the first alternative, the empty string passes the second; another
  string fails the first alternative's check and reports its issue, and a value that
  is no string fails both alternatives.
\<close>

definition iconUrlSchema :: "(string \<Rightarrow> bool) \<Rightarrow> json option \<Rightarrow> string option parsed" where
  "iconUrlSchema url v =
     (case v of
        None \<Rightarrow> Inr None
      | Some (JStr s) \<Rightarrow>
          if url s then Inr (Some s)
          else if s = [] then Inr (Some [])
          else Inl ''Invalid URL''
      | Some _ \<Rightarrow> Inl ''Invalid input'')"

definition createCategorySchema :: "env \<Rightarrow> json option \<Rightarrow> categoryInput parsed" where
  "createCategorySchema E =
     zObject (\<lambda>j.
       bindE (requiredName (getProp ''name'' j)) (\<lambda>name.
       bindE (iconUrlSchema (isUrl E) (getProp ''iconUrl'' j)) (\<lambda>iconUrl.
       bindE (zDefault 0 zInt (getProp ''sort'' j)) (\<lambda>sort.
       bindE (zDefault True zBoolean (getProp ''isActive'' j)) (\<lambda>isActive.
       Inr \<lparr>ci_name = name, ci_iconUrl = iconUrl, ci_sort = sort, ci_isActive = isActive\<rparr>)))))"

definition updateCategorySchema :: "env \<Rightarrow> json option \<Rightarrow> categoryPatch parsed" where
  "updateCategorySchema E =
     zObject (\<lambda>j.
       bindE (zOptional requiredName (getProp ''name'' j)) (\<lambda>name.
       bindE (iconUrlSchema (isUrl E) (getProp ''iconUrl'' j)) (\<lambda>iconUrl.
       bindE (zOptional zInt (getProp ''sort'' j)) (\<lambda>sort.
       bindE (zOptional zBoolean (getProp ''isActive'' j)) (\<lambda>isActive.
       Inr \<lparr>cp_name = name, cp_iconUrl = iconUrl, cp_sort = sort, cp_isActive = isActive\<rparr>)))))"

text \<open>\<open>Category.create(data)\<close> and \<open>category.save()\<close>: the model accepts or throws.\<close>

definition Category_create :: "env \<Rightarrow> categoryInput \<Rightarrow> store \<Rightarrow> exn + categoryDoc \<times> store" where
  "Category_create E d s =
     (let category = \<lparr>c_id = newObjectId E, c_name = ci_name d, c_iconUrl = ci_iconUrl d,
                       c_sort = ci_sort d, c_isActive = ci_isActive d\<rparr>
      in if CategoryModel E (categories s) category
         then Inr (category, s\<lparr>categories := categories s @ [category]\<rparr>)
         else Inl ValidationError)"

definition Category_save :: "env \<Rightarrow> categoryDoc \<Rightarrow> store \<Rightarrow> exn + store" where
  "Category_save E category s =
     (if CategoryModel E (categories s) category
      then Inr (s\<lparr>categories := saveDoc c_id category (categories s)\<rparr>)
      else Inl ValidationError)"

text \<open>\<open>Object.assign(category, data)\<close>: the keys present in the data overwrite.\<close>

definition assignCategory :: "categoryDoc \<Rightarrow> categoryPatch \<Rightarrow> categoryDoc" where
  "assignCategory category d =
     category\<lparr>
       c_name := (case cp_name d of Some n \<Rightarrow> n | None \<Rightarrow> c_name category),
       c_iconUrl := (case cp_iconUrl d of Some u \<Rightarrow> Some u | None \<Rightarrow> c_iconUrl category),
       c_sort := (case cp_sort d of Some n \<Rightarrow> n | None \<Rightarrow> c_sort category),
       c_isActive := (case cp_isActive d of Some b \<Rightarrow> b | None \<Rightarrow> c_isActive category)\<rparr>"

definition getCategories :: "env \<Rightarrow> store \<Rightarrow> request \<Rightarrow> response \<times> store" where
  "getCategories E s req =
     catching (\<lambda>e. failure 500 ''Failed to fetch categories'')
       (let found = sort_key (\<lambda>c. (c_sort c, c_name c)) (categories s)
        in (Inr ((succeed 200)\<lparr>data := Some (CategoryList found)\<rparr>), s))"

definition getCategoryById :: "env \<Rightarrow> store \<Rightarrow> request \<Rightarrow> response \<times> store" where
  "getCategoryById E s req =
     catching (\<lambda>e. failure 500 ''Failed to fetch category'')
       (case findById c_id (categories s) (param ''id'' req) of
          Inl e \<Rightarrow> (Inl e, s)
        | Inr None \<Rightarrow> (Inr (failure 404 ''Category not found''), s)
        | Inr (Some category) \<Rightarrow> (Inr ((succeed 200)\<lparr>data := Some (Category category)\<rparr>), s))"

definition createCategory :: "env \<Rightarrow> store \<Rightarrow> request \<Rightarrow> response \<times> store" where
  "createCategory E s req =
     catching (zodOr500 ''Failed to create category'')
       (case createCategorySchema E (body req) of
          Inl m \<Rightarrow> (Inl (ZodError m), s)
        | Inr d \<Rightarrow>
            (case findOne (\<lambda>c. c_name c = ci_name d) (categories s) of
               Some existingCategory \<Rightarrow>
                 (Inr (failure 400 ''Category with this name already exists''), s)
             | None \<Rightarrow>
                 (case Category_create E d s of
                    Inl e \<Rightarrow> (Inl e, s)
                  | Inr (category, s') \<Rightarrow>
                      (Inr ((succeed 201)\<lparr>data := Some (Category category)\<rparr>), s'))))"

text \<open>
  \<open>data.name && data.name !== category.name\<close>: an absent name and the empty
  string are both falsy, so neither is looked up.
\<close>

definition nameIsTaken :: "('a \<Rightarrow> string) \<Rightarrow> 'a list \<Rightarrow> string option \<Rightarrow> string \<Rightarrow> bool" where
  "nameIsTaken nameOf docs newName oldName =
     (case newName of
        None \<Rightarrow> False
      | Some n \<Rightarrow>
          if n \<noteq> [] \<and> n \<noteq> oldName
          then (case findOne (\<lambda>d. nameOf d = n) docs of Some existing \<Rightarrow> True | None \<Rightarrow> False)
          else False)"

definition updateCategory :: "env \<Rightarrow> store \<Rightarrow> request \<Rightarrow> response \<times> store" where
  "updateCategory E s req =
     catching (zodOr500 ''Failed to update category'')
       (case updateCategorySchema E (body req) of
          Inl m \<Rightarrow> (Inl (ZodError m), s)
        | Inr d \<Rightarrow>
            (case findById c_id (categories s) (param ''id'' req) of
               Inl e \<Rightarrow> (Inl e, s)
             | Inr None \<Rightarrow> (Inr (failure 404 ''Category not found''), s)
             | Inr (Some category) \<Rightarrow>
                 if nameIsTaken c_name (categories s) (cp_name d) (c_name category)
                 then (Inr (failure 400 ''Category with this name already exists''), s)
                 else
                   (let category' = assignCategory category d
                    in case Category_save E category' s of
                         Inl e \<Rightarrow> (Inl e, s)
                       | Inr s' \<Rightarrow>
                           (Inr ((succeed 200)\<lparr>data := Some (Category category')\<rparr>), s'))))"

definition deleteCategory :: "env \<Rightarrow> store \<Rightarrow> request \<Rightarrow> response \<times> store" where
  "deleteCategory E s req =
     catching (\<lambda>e. failure 500 ''Failed to delete category'')
       (case findById c_id (categories s) (param ''id'' req) of
          Inl e \<Rightarrow> (Inl e, s)
        | Inr None \<Rightarrow> (Inr (failure 404 ''Category not found''), s)
        | Inr (Some category) \<Rightarrow>
            (case findByIdAndDelete c_id (categories s) (param ''id'' req) of
               Inl e \<Rightarrow> (Inl e, s)
             | Inr remaining \<Rightarrow>
                 (Inr ((succeed 200)\<lparr>message := Some ''Category deleted successfully''\<rparr>),
                  s\<lparr>categories := remaining\<rparr>)))"

section \<open>controllers/orders.ts\<close>

definition orderStatuses :: "string list" where
  "orderStatuses =
     [''placed'', ''confirmed'', ''preparing'', ''out_for_delivery'', ''delivered'', ''cancelled'']"

definition updateOrderStatusSchema :: "json option \<Rightarrow> string parsed" where
  "updateOrderStatusSchema =
     zObject (\<lambda>j. bindE (zEnum orderStatuses (getProp ''status'' j)) (\<lambda>newStatus. Inr newStatus))"

text \<open>
  \<open>parseInt\<close> of a string: leading white space and a sign are skipped, \<open>0x\<close>
  selects base 16, and the longest run of digits is read; with no digit the result is
  \<open>NaN\<close>, here \<open>None\<close>. Numbers stay exact (no rounding to a double).
\<close>

definition digitValue :: "char \<Rightarrow> nat" where
  "digitValue c =
     (case map_of (zip ''0123456789abcdef'' [0 ..< 16]) (lowerHex c) of
        Some d \<Rightarrow> d
      | None \<Rightarrow> 36)"

definition parseInt :: "string \<Rightarrow> int option" where
  "parseInt str =
     (let s1 = dropWhile isWhiteSpace str;
          negative = (take 1 s1 = ''-'');
          s2 = (if take 1 s1 = ''-'' \<or> take 1 s1 = ''+'' then drop 1 s1 else s1);
          hex = (take 2 s2 = ''0x'' \<or> take 2 s2 = ''0X'');
          radix = (if hex then 16 else 10);
          s3 = (if hex then drop 2 s2 else s2);
          digits = takeWhile (\<lambda>c. digitValue c < radix) s3;
          n = foldl (\<lambda>acc c. acc * int radix + int (digitValue c)) 0 digits
      in if digits = [] then None else Some (if negative then - n else n))"

definition queryParam :: "string \<Rightarrow> request \<Rightarrow> string option" where
  "queryParam k req = map_of (query req) k"

definition orDefault :: "string option \<Rightarrow> string \<Rightarrow> string" where
  "orDefault v d = (case v of None \<Rightarrow> d | Some x \<Rightarrow> x)"

text \<open>\<open>if (v)\<close> on a query parameter: absent and empty are both falsy.\<close>

definition truthy :: "string option \<Rightarrow> bool" where
  "truthy v = (case v of None \<Rightarrow> False | Some x \<Rightarrow> x \<noteq> [])"

definition skipOf :: "int option \<Rightarrow> int option \<Rightarrow> int option" where
  "skipOf pageNum limitNum =
     (case (pageNum, limitNum) of (Some p, Some l) \<Rightarrow> Some ((p - 1) * l) | _ \<Rightarrow> None)"

text \<open>\<open>Math.ceil(total / limitNum)\<close>.\<close>

definition pagesOf :: "nat \<Rightarrow> int option \<Rightarrow> int option" where
  "pagesOf cnt limitNum =
     (case limitNum of
        None \<Rightarrow> None
      | Some l \<Rightarrow> if l = 0 then None else Some \<lceil>rat_of_nat cnt / rat_of_int l\<rceil>)"

text \<open>\<open>.sort({ createdAt: -1 }).limit(limitNum).skip(skip)\<close> on the matching documents.\<close>

definition newestFirst :: "('a \<Rightarrow> nat) \<Rightarrow> 'a list \<Rightarrow> 'a list" where
  "newestFirst createdAt docs = rev (sort_key createdAt docs)"

definition page_of ::
  "env \<Rightarrow> int option \<Rightarrow> int option \<Rightarrow> 'a list \<Rightarrow> exn + 'a list" where
  "page_of E limitNum skip docs =
     (case paginate E limitNum skip of
        None \<Rightarrow> Inl (Error ''query rejected'')
      | Some (k, None) \<Rightarrow> Inr (drop k docs)
      | Some (k, Some cap) \<Rightarrow> Inr (take cap (drop k docs)))"

definition populateUser :: "store \<Rightarrow> orderDoc \<Rightarrow> orderDoc \<times> userRef" where
  "populateUser s order =
     (order,
      case find (\<lambda>u. u_id u = o_userId order) (users s) of
        None \<Rightarrow> None
      | Some u \<Rightarrow> Some (u_id u, u_name u, u_email u, u_phone u))"

text \<open>The filter of \<open>getAllOrders\<close>; the user identifier is cast as the schema has it.\<close>

definition orderFilter :: "request \<Rightarrow> exn + (orderDoc \<Rightarrow> bool)" where
  "orderFilter req =
     (let statusQ = queryParam ''status'' req; userId = queryParam ''userId'' req;
          byStatus = (\<lambda>order. if truthy statusQ then Some (o_status order) = statusQ else True)
      in if truthy userId
         then (case castObjectId (orDefault userId []) of
                 None \<Rightarrow> Inl CastError
               | Some uid \<Rightarrow> Inr (\<lambda>order. byStatus order \<and> o_userId order = uid))
         else Inr byStatus)"

definition getAllOrders :: "env \<Rightarrow> store \<Rightarrow> request \<Rightarrow> response \<times> store" where
  "getAllOrders E s req =
     catching (\<lambda>e. failure 500 ''Failed to fetch orders'')
       (let pageNum = parseInt (orDefault (queryParam ''page'' req) ''1'');
            limitNum = parseInt (orDefault (queryParam ''limit'' req) ''20'');
            skip = skipOf pageNum limitNum
        in case orderFilter req of
             Inl e \<Rightarrow> (Inl e, s)
           | Inr matches \<Rightarrow>
               (case page_of E limitNum skip (newestFirst o_createdAt (filter matches (orders s))) of
                  Inl e \<Rightarrow> (Inl e, s)
                | Inr found \<Rightarrow>
                    (let cnt = countDocuments matches (orders s)
                     in (Inr ((succeed 200)\<lparr>
                           data := Some (OrderList (map (populateUser s) found)),
                           meta := Some \<lparr>m_total = cnt, m_page = pageNum, m_limit = limitNum,
                                         m_pages = pagesOf cnt limitNum\<rparr>\<rparr>), s))))"

definition getOrderById :: "env \<Rightarrow> store \<Rightarrow> request \<Rightarrow> response \<times> store" where
  "getOrderById E s req =
     catching (\<lambda>e. failure 500 ''Failed to fetch order'')
       (case findById o_id (orders s) (param ''id'' req) of
          Inl e \<Rightarrow> (Inl e, s)
        | Inr None \<Rightarrow> (Inr (failure 404 ''Order not found''), s)
        | Inr (Some order) \<Rightarrow>
            (Inr ((succeed 200)\<lparr>data := Some (Order (Some (populateUser s order)))\<rparr>), s))"

definition Order_save :: "env \<Rightarrow> orderDoc \<Rightarrow> store \<Rightarrow> exn + store" where
  "Order_save E order s =
     (if OrderModel E (orders s) order
      then Inr (s\<lparr>orders := saveDoc o_id order (orders s)\<rparr>)
      else Inl ValidationError)"

definition updateOrderStatus :: "env \<Rightarrow> store \<Rightarrow> request \<Rightarrow> response \<times> store" where
  "updateOrderStatus E s req =
     catching (zodOr500 ''Failed to update order status'')
       (case updateOrderStatusSchema (body req) of
          Inl m \<Rightarrow> (Inl (ZodError m), s)
        | Inr newStatus \<Rightarrow>
            (case findById o_id (orders s) (param ''id'' req) of
               Inl e \<Rightarrow> (Inl e, s)
             | Inr None \<Rightarrow> (Inr (failure 404 ''Order not found''), s)
             | Inr (Some order) \<Rightarrow>
                 (case Order_save E (order\<lparr>o_status := newStatus\<rparr>) s of
                    Inl e \<Rightarrow> (Inl e, s)
                  | Inr s' \<Rightarrow>
                      (let updatedOrder = find (\<lambda>d. o_id d = o_id order) (orders s')
                       in (Inr ((succeed 200)\<lparr>
                             data := Some (Order (map_option (populateUser s') updatedOrder)),
                             message := Some ''Order status updated successfully''\<rparr>), s')))))"

text \<open>
  The aggregation \<open>$match\<close> then \<open>$group\<close> with \<open>_id: null\<close>: one group
  holding the sum when a document matches, no group when none does.
\<close>

definition aggregateTotal :: "(orderDoc \<Rightarrow> bool) \<Rightarrow> orderDoc list \<Rightarrow> rat list" where
  "aggregateTotal matches docs =
     (case filter matches docs of
        [] \<Rightarrow> []
      | d # ds \<Rightarrow> [foldl (\<lambda>acc order. acc + o_total order) 0 (d # ds)])"

definition getOrderStats :: "env \<Rightarrow> store \<Rightarrow> request \<Rightarrow> response \<times> store" where
  "getOrderStats E s req =
     catching (\<lambda>e. failure 500 ''Failed to fetch order stats'')
       (let counted = countDocuments (\<lambda>order. True) (orders s);
            pending = countDocuments
              (\<lambda>order. o_status order \<in> set [''placed'', ''confirmed'', ''preparing'']) (orders s);
            delivered = countDocuments (\<lambda>order. o_status order = ''delivered'') (orders s);
            cancelled = countDocuments (\<lambda>order. o_status order = ''cancelled'') (orders s);
            totalRevenue = aggregateTotal (\<lambda>order. o_status order = ''delivered'') (orders s);
            rev = (case totalRevenue of [] \<Rightarrow> 0 | g # gs \<Rightarrow> g)
        in (Inr ((succeed 200)\<lparr>data := Some (Stats
              \<lparr>totalOrders = counted, pendingOrders = pending, deliveredOrders = delivered,
               cancelledOrders = cancelled, revenue = rev\<rparr>)\<rparr>), s))"

section \<open>controllers/products.ts\<close>

record productInput =
  pi_name :: string
  pi_categoryId :: string
  pi_images :: "string list"
  pi_description :: "string option"
  pi_unitPrices :: "unitPrice list"
  pi_rating :: "rat option"
  pi_isActive :: bool

record productPatch =
  pp_name :: "string option"
  pp_categoryId :: "string option"
  pp_images :: "string list option"
  pp_description :: "string option"
  pp_unitPrices :: "unitPrice list option"
  pp_rating :: "rat option"
  pp_isActive :: "bool option"

definition positive :: "json option \<Rightarrow> rat parsed" where
  "positive v =
     bindE (zNumber v) (\<lambda>r. if r > 0 then Inr r else Inl ''Number must be greater than 0'')"

definition stockSchema :: "json option \<Rightarrow> rat parsed" where
  "stockSchema v =
     bindE (zNumber v) (\<lambda>r.
       if r \<ge> 0 then Inr r else Inl ''Number must be greater than or equal to 0'')"

definition ratingSchema :: "json option \<Rightarrow> rat parsed" where
  "ratingSchema v =
     bindE (zNumber v) (\<lambda>r.
       if r < 0 then Inl ''Number must be greater than or equal to 0''
       else if r > 5 then Inl ''Number must be less than or equal to 5''
       else Inr r)"

definition unitPriceSchema :: "json option \<Rightarrow> unitPrice parsed" where
  "unitPriceSchema =
     zObject (\<lambda>j.
       bindE (zEnum [''kg'', ''g'', ''pcs'', ''bundle''] (getProp ''unit'' j)) (\<lambda>unit.
       bindE (positive (getProp ''step'' j)) (\<lambda>step.
       bindE (positive (getProp ''baseQty'' j)) (\<lambda>baseQty.
       bindE (positive (getProp ''price'' j)) (\<lambda>price.
       bindE (zOptional positive (getProp ''compareAt'' j)) (\<lambda>compareAt.
       bindE (stockSchema (getProp ''stock'' j)) (\<lambda>stock.
       Inr \<lparr>up_unit = unit, up_step = step, up_baseQty = baseQty, up_price = price,
            up_compareAt = compareAt, up_stock = stock\<rparr>)))))))"

text \<open>\<open>z.string().regex(/^[0-9a-fA-F]{24}$/, 'Invalid category ID')\<close>.\<close>

definition categoryIdSchema :: "json option \<Rightarrow> string parsed" where
  "categoryIdSchema v =
     bindE (zString v) (\<lambda>s.
       if length s = 24 \<and> list_all isHexDigit s then Inr s else Inl ''Invalid category ID'')"

definition imageSchema :: "env \<Rightarrow> json option \<Rightarrow> string parsed" where
  "imageSchema E v =
     bindE (zString v) (\<lambda>s. if isUrl E s then Inr s else Inl ''Invalid image URL'')"

definition createProductSchema :: "env \<Rightarrow> json option \<Rightarrow> productInput parsed" where
  "createProductSchema E =
     zObject (\<lambda>j.
       bindE (requiredName (getProp ''name'' j)) (\<lambda>name.
       bindE (categoryIdSchema (getProp ''categoryId'' j)) (\<lambda>categoryId.
       bindE (zArray (Some (1, ''At least one image is required'')) (imageSchema E)
                (getProp ''images'' j)) (\<lambda>images.
       bindE (zOptional zString (getProp ''description'' j)) (\<lambda>description.
       bindE (zArray (Some (1, ''At least one unit price is required'')) unitPriceSchema
                (getProp ''unitPrices'' j)) (\<lambda>unitPrices.
       bindE (zOptional ratingSchema (getProp ''rating'' j)) (\<lambda>rating.
       bindE (zDefault True zBoolean (getProp ''isActive'' j)) (\<lambda>isActive.
       Inr \<lparr>pi_name = name, pi_categoryId = categoryId, pi_images = images,
            pi_description = description, pi_unitPrices = unitPrices, pi_rating = rating,
            pi_isActive = isActive\<rparr>))))))))"

definition updateProductSchema :: "env \<Rightarrow> json option \<Rightarrow> productPatch parsed" where
  "updateProductSchema E =
     zObject (\<lambda>j.
       bindE (zOptional requiredName (getProp ''name'' j)) (\<lambda>name.
       bindE (zOptional categoryIdSchema (getProp ''categoryId'' j)) (\<lambda>categoryId.
       bindE (zOptional (zArray None (imageSchema E)) (getProp ''images'' j)) (\<lambda>images.
       bindE (zOptional zString (getProp ''description'' j)) (\<lambda>description.
       bindE (zOptional (zArray None unitPriceSchema) (getProp ''unitPrices'' j)) (\<lambda>unitPrices.
       bindE (zOptional ratingSchema (getProp ''rating'' j)) (\<lambda>rating.
       bindE (zOptional zBoolean (getProp ''isActive'' j)) (\<lambda>isActive.
       Inr \<lparr>pp_name = name, pp_categoryId = categoryId, pp_images = images,
            pp_description = description, pp_unitPrices = unitPrices, pp_rating = rating,
            pp_isActive = isActive\<rparr>))))))))"

text \<open>
  \<open>Product.create(data)\<close> and \<open>product.save()\<close>. The category reference is
  stored as an identifier, so the string is cast when the document is written.
\<close>

definition Product_create :: "env \<Rightarrow> productInput \<Rightarrow> store \<Rightarrow> exn + productDoc \<times> store" where
  "Product_create E d s =
     (case castObjectId (pi_categoryId d) of
        None \<Rightarrow> Inl CastError
      | Some categoryId \<Rightarrow>
          (let product = \<lparr>p_id = newObjectId E, p_name = pi_name d, p_categoryId = categoryId,
                          p_images = pi_images d, p_description = pi_description d,
                          p_unitPrices = pi_unitPrices d, p_rating = pi_rating d,
                          p_isActive = pi_isActive d, p_createdAt = now E\<rparr>
           in if ProductModel E (products s) product
              then Inr (product, s\<lparr>products := products s @ [product]\<rparr>)
              else Inl ValidationError))"

definition Product_save :: "env \<Rightarrow> productDoc \<Rightarrow> store \<Rightarrow> exn + store" where
  "Product_save E product s =
     (if ProductModel E (products s) product
      then Inr (s\<lparr>products := saveDoc p_id product (products s)\<rparr>)
      else Inl ValidationError)"

definition assignProduct :: "productDoc \<Rightarrow> productPatch \<Rightarrow> exn + productDoc" where
  "assignProduct product d =
     (let assigned = product\<lparr>
            p_name := (case pp_name d of Some n \<Rightarrow> n | None \<Rightarrow> p_name product),
            p_images := (case pp_images d of Some i \<Rightarrow> i | None \<Rightarrow> p_images product),
            p_description :=
              (case pp_description d of Some t \<Rightarrow> Some t | None \<Rightarrow> p_description product),
            p_unitPrices :=
              (case pp_unitPrices d of Some u \<Rightarrow> u | None \<Rightarrow> p_unitPrices product),
            p_rating := (case pp_rating d of Some r \<Rightarrow> Some r | None \<Rightarrow> p_rating product),
            p_isActive := (case pp_isActive d of Some b \<Rightarrow> b | None \<Rightarrow> p_isActive product)\<rparr>
      in case pp_categoryId d of
           None \<Rightarrow> Inr assigned
         | Some c \<Rightarrow>
             (case castObjectId c of
                None \<Rightarrow> Inl CastError
              | Some categoryId \<Rightarrow> Inr (assigned\<lparr>p_categoryId := categoryId\<rparr>)))"

definition populateCategory :: "store \<Rightarrow> productDoc \<Rightarrow> productDoc \<times> categoryRef" where
  "populateCategory s product =
     (product,
      case find (\<lambda>c. c_id c = p_categoryId product) (categories s) of
        None \<Rightarrow> None
      | Some c \<Rightarrow> Some (c_id c, c_name c))"

text \<open>
  The filter of \<open>getProducts\<close>: the category (cast as the schema has it), the
  search pattern on name or description, and the activity flag.
\<close>

definition productFilter :: "env \<Rightarrow> request \<Rightarrow> exn + (productDoc \<Rightarrow> bool)" where
  "productFilter E req =
     (let categoryQ = queryParam ''category'' req; q = queryParam ''q'' req;
          isActiveQ = queryParam ''isActive'' req;
          byActive = (\<lambda>product.
            case isActiveQ of
              None \<Rightarrow> True
            | Some a \<Rightarrow> p_isActive product = (a = ''true''))
      in case (if truthy q then map_option Some (newRegExp E (orDefault q [])) else Some None) of
           None \<Rightarrow> Inl (Error ''Invalid regular expression'')
         | Some searchRegex \<Rightarrow>
             (let bySearch = (\<lambda>product.
                    case searchRegex of
                      None \<Rightarrow> True
                    | Some test \<Rightarrow>
                        test (p_name product) \<or>
                        (case p_description product of None \<Rightarrow> False | Some t \<Rightarrow> test t))
              in if truthy categoryQ
                 then (case castObjectId (orDefault categoryQ []) of
                         None \<Rightarrow> Inl CastError
                       | Some cid \<Rightarrow>
                           Inr (\<lambda>product. p_categoryId product = cid \<and> bySearch product
                                  \<and> byActive product))
                 else Inr (\<lambda>product. bySearch product \<and> byActive product)))"

definition getProducts :: "env \<Rightarrow> store \<Rightarrow> request \<Rightarrow> response \<times> store" where
  "getProducts E s req =
     catching (\<lambda>e. failure 500 ''Failed to fetch products'')
       (case productFilter E req of
          Inl e \<Rightarrow> (Inl e, s)
        | Inr matches \<Rightarrow>
            (let limitNum = parseInt (orDefault (queryParam ''limit'' req) ''50'');
                 pageNum = parseInt (orDefault (queryParam ''page'' req) ''1'');
                 skip = skipOf pageNum limitNum
             in case page_of E limitNum skip
                       (newestFirst p_createdAt (filter matches (products s))) of
                  Inl e \<Rightarrow> (Inl e, s)
                | Inr found \<Rightarrow>
                    (let cnt = countDocuments matches (products s)
                     in (Inr ((succeed 200)\<lparr>
                           data := Some (ProductList (map (populateCategory s) found)),
                           meta := Some \<lparr>m_total = cnt, m_page = pageNum, m_limit = limitNum,
                                         m_pages = pagesOf cnt limitNum\<rparr>\<rparr>), s))))"

definition getProductById :: "env \<Rightarrow> store \<Rightarrow> request \<Rightarrow> response \<times> store" where
  "getProductById E s req =
     catching (\<lambda>e. failure 500 ''Failed to fetch product'')
       (case findById p_id (products s) (param ''id'' req) of
          Inl e \<Rightarrow> (Inl e, s)
        | Inr None \<Rightarrow> (Inr (failure 404 ''Product not found''), s)
        | Inr (Some product) \<Rightarrow>
            (Inr ((succeed 200)\<lparr>data := Some (Product (Some (populateCategory s product)))\<rparr>), s))"

definition createProduct :: "env \<Rightarrow> store \<Rightarrow> request \<Rightarrow> response \<times> store" where
  "createProduct E s req =
     catching (zodOr500 ''Failed to create product'')
       (case createProductSchema E (body req) of
          Inl m \<Rightarrow> (Inl (ZodError m), s)
        | Inr d \<Rightarrow>
            (case findById c_id (categories s) (Some (pi_categoryId d)) of
               Inl e \<Rightarrow> (Inl e, s)
             | Inr None \<Rightarrow> (Inr (failure 400 ''Category not found''), s)
             | Inr (Some category) \<Rightarrow>
                 (case findOne (\<lambda>p. p_name p = pi_name d) (products s) of
                    Some existingProduct \<Rightarrow>
                      (Inr (failure 400 ''Product with this name already exists''), s)
                  | None \<Rightarrow>
                      (case Product_create E d s of
                         Inl e \<Rightarrow> (Inl e, s)
                       | Inr (product, s') \<Rightarrow>
                           (let populatedProduct =
                                  find (\<lambda>p. p_id p = p_id product) (products s')
                            in (Inr ((succeed 201)\<lparr>data := Some (Product
                                  (map_option (populateCategory s') populatedProduct))\<rparr>),
                                s'))))))"

text \<open>\<open>if (data.categoryId)\<close>: the reference is looked up when the patch carries one.\<close>

definition categoryMissing :: "store \<Rightarrow> string option \<Rightarrow> exn + bool" where
  "categoryMissing s categoryId =
     (if truthy categoryId
      then (case findById c_id (categories s) categoryId of
              Inl e \<Rightarrow> Inl e
            | Inr None \<Rightarrow> Inr True
            | Inr (Some category) \<Rightarrow> Inr False)
      else Inr False)"

definition updateProduct :: "env \<Rightarrow> store \<Rightarrow> request \<Rightarrow> response \<times> store" where
  "updateProduct E s req =
     catching (zodOr500 ''Failed to update product'')
       (case updateProductSchema E (body req) of
          Inl m \<Rightarrow> (Inl (ZodError m), s)
        | Inr d \<Rightarrow>
            (case findById p_id (products s) (param ''id'' req) of
               Inl e \<Rightarrow> (Inl e, s)
             | Inr None \<Rightarrow> (Inr (failure 404 ''Product not found''), s)
             | Inr (Some product) \<Rightarrow>
                 (case categoryMissing s (pp_categoryId d) of
                    Inl e \<Rightarrow> (Inl e, s)
                  | Inr True \<Rightarrow> (Inr (failure 400 ''Category not found''), s)
                  | Inr False \<Rightarrow>
                      if nameIsTaken p_name (products s) (pp_name d) (p_name product)
                      then (Inr (failure 400 ''Product with this name already exists''), s)
                      else
                        (case assignProduct product d of
                           Inl e \<Rightarrow> (Inl e, s)
                         | Inr product' \<Rightarrow>
                             (case Product_save E product' s of
                                Inl e \<Rightarrow> (Inl e, s)
                              | Inr s' \<Rightarrow>
                                  (let updatedProduct =
                                         find (\<lambda>p. p_id p = p_id product') (products s')
                                   in (Inr ((succeed 200)\<lparr>data := Some (Product
                                         (map_option (populateCategory s') updatedProduct))\<rparr>),
                                       s')))))))"

definition deleteProduct :: "env \<Rightarrow> store \<Rightarrow> request \<Rightarrow> response \<times> store" where
  "deleteProduct E s req =
     catching (\<lambda>e. failure 500 ''Failed to delete product'')
       (case findById p_id (products s) (param ''id'' req) of
          Inl e \<Rightarrow> (Inl e, s)
        | Inr None \<Rightarrow> (Inr (failure 404 ''Product not found''), s)
        | Inr (Some product) \<Rightarrow>
            (case findByIdAndDelete p_id (products s) (param ''id'' req) of
               Inl e \<Rightarrow> (Inl e, s)
             | Inr remaining \<Rightarrow>
                 (Inr ((succeed 200)\<lparr>message := Some ''Product deleted successfully''\<rparr>),
                  s\<lparr>products := remaining\<rparr>)))"

section \<open>controllers/auth.ts\<close>

definition adminLoginSchema :: "env \<Rightarrow> json option \<Rightarrow> (string \<times> string) parsed" where
  "adminLoginSchema E =
     zObject (\<lambda>j.
       bindE (bindE (zString (getProp ''email'' j)) (\<lambda>s.
                if isEmail E s then Inr s else Inl ''Invalid email format'')) (\<lambda>email.
       bindE (bindE (zString (getProp ''password'' j)) (\<lambda>s.
                if length s < 1 then Inl ''Password is required'' else Inr s)) (\<lambda>password.
       Inr (email, password))))"

text \<open>
  \<open>generateTokens\<close> throws when \<open>JWT_SECRET\<close> is unset or empty; otherwise
  it signs the user identifier twice, for one day and for thirty days.
\<close>

definition generateTokens :: "env \<Rightarrow> string \<Rightarrow> exn + string \<times> string" where
  "generateTokens E userId =
     (if \<not> truthy (JWT_SECRET E)
      then Inl (Error ''JWT_SECRET is not configured. Please set JWT_SECRET in your .env file.'')
      else
        (let secret = orDefault (JWT_SECRET E) [];
             accessToken = jwtSign E userId secret ''1d'';
             refreshToken = jwtSign E userId secret ''30d''
         in Inr (accessToken, refreshToken)))"

definition viewOf :: "userDoc \<Rightarrow> userView" where
  "viewOf user =
     \<lparr>v_id = u_id user, v_name = u_name user, v_email = u_email user,
      v_avatarUrl = u_avatarUrl user, v_role = u_role user\<rparr>"

definition adminLogin :: "env \<Rightarrow> store \<Rightarrow> request \<Rightarrow> response \<times> store" where
  "adminLogin E s req =
     catching
       (\<lambda>e. failure 400 (case e of ZodError m \<Rightarrow> ''Validation error'' | _ \<Rightarrow> ''Login failed''))
       (case adminLoginSchema E (body req) of
          Inl m \<Rightarrow> (Inl (ZodError m), s)
        | Inr (email, password) \<Rightarrow>
            (case findOne (\<lambda>u. u_email u = email) (users s) of
               None \<Rightarrow> (Inr (failure 401 ''Invalid credentials''), s)
             | Some user \<Rightarrow>
                 if \<not> truthy (u_passwordHash user)
                 then (Inr (failure 401 ''Invalid credentials''), s)
                 else if u_role user \<noteq> ''admin''
                 then (Inr (failure 403 ''Admin access required''), s)
                 else if \<not> bcryptCompare E password (orDefault (u_passwordHash user) [])
                 then (Inr (failure 401 ''Invalid credentials''), s)
                 else
                   (case generateTokens E (u_id user) of
                      Inl e \<Rightarrow> (Inl e, s)
                    | Inr (accessToken, refreshToken) \<Rightarrow>
                        (Inr ((succeed 200)\<lparr>data :=
                           Some (Login (viewOf user) accessToken refreshToken)\<rparr>), s))))"

text \<open>\<open>authHeader.split(' ')\<close> and its element at index 1.\<close>

fun splitOn :: "char \<Rightarrow> string \<Rightarrow> string list" where
  "splitOn c [] = [[]]"
| "splitOn c (x # xs) =
     (if x = c then [] # splitOn c xs
      else (case splitOn c xs of [] \<Rightarrow> [[x]] | w # ws \<Rightarrow> (x # w) # ws))"

definition bearerToken :: "string option \<Rightarrow> string option" where
  "bearerToken authHeader =
     (if truthy authHeader
      then (case splitOn CHR '' '' (orDefault authHeader []) of
              scheme # token # rest \<Rightarrow> Some token
            | _ \<Rightarrow> None)
      else authHeader)"

definition getAdminProfile :: "env \<Rightarrow> store \<Rightarrow> request \<Rightarrow> response \<times> store" where
  "getAdminProfile E s req =
     catching (\<lambda>e. failure 401 ''Invalid token'')
       (if \<not> truthy (JWT_SECRET E)
        then (Inr (failure 500 ''JWT_SECRET is not configured''), s)
        else
          (let token = bearerToken (authorization req)
           in if \<not> truthy token
              then (Inr (failure 401 ''Access token required''), s)
              else
                (case jwtVerify E (orDefault token []) (orDefault (JWT_SECRET E) []) of
                   None \<Rightarrow> (Inl (Error ''jwt.verify''), s)
                 | Some userId \<Rightarrow>
                     (case findById u_id (users s) userId of
                        Inl e \<Rightarrow> (Inl e, s)
                      | Inr None \<Rightarrow> (Inr (failure 403 ''Admin access required''), s)
                      | Inr (Some user) \<Rightarrow>
                          if u_role user \<noteq> ''admin''
                          then (Inr (failure 403 ''Admin access required''), s)
                          else (Inr ((succeed 200)\<lparr>data := Some (Profile (viewOf user))\<rparr>),
                                s)))))"

section \<open>The routers\<close>

datatype controller =
    AdminLogin | GetAdminProfile
  | GetProducts | GetProductById | CreateProduct | UpdateProduct | DeleteProduct
  | GetCategories | GetCategoryById | CreateCategory | UpdateCategory | DeleteCategory
  | GetAllOrders | GetOrderStats | GetOrderById | UpdateOrderStatus

datatype handler = AuthenticateToken | RequireAdmin | Controller controller

text \<open>A path pattern, segment by segment: a literal or a named parameter.\<close>

datatype segment = Lit string | Par string

type_synonym route = "verb \<times> segment list \<times> handler list"

definition authRouter :: "route list" where
  "authRouter =
     [(POST, [Lit ''login''], [Controller AdminLogin]),
      (GET, [Lit ''me''], [AuthenticateToken, RequireAdmin, Controller GetAdminProfile])]"

definition productsRouter :: "route list" where
  "productsRouter =
     [(GET, [], [AuthenticateToken, RequireAdmin, Controller GetProducts]),
      (GET, [Par ''id''], [AuthenticateToken, RequireAdmin, Controller GetProductById]),
      (POST, [], [AuthenticateToken, RequireAdmin, Controller CreateProduct]),
      (PUT, [Par ''id''], [AuthenticateToken, RequireAdmin, Controller UpdateProduct]),
      (DELETE, [Par ''id''], [AuthenticateToken, RequireAdmin, Controller DeleteProduct])]"

definition categoriesRouter :: "route list" where
  "categoriesRouter =
     [(GET, [], [AuthenticateToken, RequireAdmin, Controller GetCategories]),
      (GET, [Par ''id''], [AuthenticateToken, RequireAdmin, Controller GetCategoryById]),
      (POST, [], [AuthenticateToken, RequireAdmin, Controller CreateCategory]),
      (PUT, [Par ''id''], [AuthenticateToken, RequireAdmin, Controller UpdateCategory]),
      (DELETE, [Par ''id''], [AuthenticateToken, RequireAdmin, Controller DeleteCategory])]"

definition ordersRouter :: "route list" where
  "ordersRouter =
     [(GET, [], [AuthenticateToken, RequireAdmin, Controller GetAllOrders]),
      (GET, [Lit ''stats''], [AuthenticateToken, RequireAdmin, Controller GetOrderStats]),
      (GET, [Par ''id''], [AuthenticateToken, RequireAdmin, Controller GetOrderById]),
      (PATCH, [Par ''id'', Lit ''status''],
         [AuthenticateToken, RequireAdmin, Controller UpdateOrderStatus])]"

fun controllerOf :: "controller \<Rightarrow> env \<Rightarrow> store \<Rightarrow> request \<Rightarrow> response \<times> store" where
  "controllerOf AdminLogin = adminLogin"
| "controllerOf GetAdminProfile = getAdminProfile"
| "controllerOf GetProducts = getProducts"
| "controllerOf GetProductById = getProductById"
| "controllerOf CreateProduct = createProduct"
| "controllerOf UpdateProduct = updateProduct"
| "controllerOf DeleteProduct = deleteProduct"
| "controllerOf GetCategories = getCategories"
| "controllerOf GetCategoryById = getCategoryById"
| "controllerOf CreateCategory = createCategory"
| "controllerOf UpdateCategory = updateCategory"
| "controllerOf DeleteCategory = deleteCategory"
| "controllerOf GetAllOrders = getAllOrders"
| "controllerOf GetOrderStats = getOrderStats"
| "controllerOf GetOrderById = getOrderById"
| "controllerOf UpdateOrderStatus = updateOrderStatus"

text \<open>
  The handlers of a route run in the order they were registered. Each middleware
  answers or calls \<open>next\<close>; a controller always answers. The result is the list of
  handlers that were run, the response if one was sent, and the store.
\<close>

type_synonym outcome = "handler list \<times> response option \<times> store"

fun runHandlers :: "env \<Rightarrow> handler list \<Rightarrow> store \<Rightarrow> request \<Rightarrow> outcome" where
  "runHandlers E [] s req = ([], None, s)"
| "runHandlers E (Controller c # hs) s req =
     (case controllerOf c E s req of (res, s') \<Rightarrow> ([Controller c], Some res, s'))"
| "runHandlers E (AuthenticateToken # hs) s req =
     (case authenticateToken E s req of
        Respond res \<Rightarrow> ([AuthenticateToken], Some res, s)
      | Next req' \<Rightarrow>
          (case runHandlers E hs s req' of (trace, res, s') \<Rightarrow> (AuthenticateToken # trace, res, s')))"
| "runHandlers E (RequireAdmin # hs) s req =
     (case requireAdmin E s req of
        Respond res \<Rightarrow> ([RequireAdmin], Some res, s)
      | Next req' \<Rightarrow>
          (case runHandlers E hs s req' of (trace, res, s') \<Rightarrow> (RequireAdmin # trace, res, s')))"

text \<open>Routing does not distinguish capital from small letters in a literal segment.\<close>

definition lowerCase :: "string \<Rightarrow> string" where
  "lowerCase str =
     map (\<lambda>c. case map_of (zip ''ABCDEFGHIJKLMNOPQRSTUVWXYZ'' ''abcdefghijklmnopqrstuvwxyz'') c of
                Some l \<Rightarrow> l
              | None \<Rightarrow> c) str"

fun matchPath :: "segment list \<Rightarrow> string list \<Rightarrow> (string \<times> string) list option" where
  "matchPath [] [] = Some []"
| "matchPath (Lit l # ps) (x # xs) = (if lowerCase x = l then matchPath ps xs else None)"
| "matchPath (Par k # ps) (x # xs) =
     (if x = [] then None else map_option (\<lambda>kvs. (k, x) # kvs) (matchPath ps xs))"
| "matchPath _ _ = None"

text \<open>
  A router tries its routes in order; a route whose handlers all called \<open>next\<close>
  hands over to the routes after it.
\<close>

fun dispatch :: "env \<Rightarrow> route list \<Rightarrow> store \<Rightarrow> request \<Rightarrow> outcome" where
  "dispatch E [] s req = ([], None, s)"
| "dispatch E ((v, pattern, handlers) # routes) s req =
     (if v \<noteq> reqMethod req then dispatch E routes s req
      else
        (case matchPath pattern (reqPath req) of
           None \<Rightarrow> dispatch E routes s req
         | Some kvs \<Rightarrow>
             (case runHandlers E handlers s (req\<lparr>params := kvs\<rparr>) of
                (trace, Some res, s') \<Rightarrow> (trace, Some res, s')
              | (trace, None, s') \<Rightarrow>
                  (case dispatch E routes s' req of
                     (trace', res, s'') \<Rightarrow> (trace @ trace', res, s'')))))"

text \<open>The mount points are those of the endpoint list in the README.\<close>

definition mounts :: "(string \<times> route list) list" where
  "mounts =
     [(''auth'', authRouter), (''products'', productsRouter),
      (''categories'', categoriesRouter), (''orders'', ordersRouter)]"

definition app :: "env \<Rightarrow> store \<Rightarrow> request \<Rightarrow> outcome" where
  "app E s req =
     (case reqPath req of
        [] \<Rightarrow> ([], None, s)
      | first # rest \<Rightarrow>
          (case map_of mounts (lowerCase first) of
             None \<Rightarrow> ([], None, s)
           | Some router \<Rightarrow> dispatch E router s (req\<lparr>reqPath := rest\<rparr>)))"

section \<open>Predicates used to state the properties\<close>


text \<open>
  The shape of a response: \<open>success\<close> is true exactly for a 2xx status, and a
  response that is not a success carries an \<open>error\<close> string.
\<close>

definition shaped :: "response \<Rightarrow> bool" where
  "shaped res \<longleftrightarrow>
     (success res \<longleftrightarrow> 200 \<le> status res \<and> status res < 300)
     \<and> (success res \<or> (\<exists>msg. error res = Some msg))"

text \<open>No two categories share a name, and no two products do.\<close>

definition namesDistinct :: "store \<Rightarrow> bool" where
  "namesDistinct s \<longleftrightarrow>
     distinct (map c_name (categories s)) \<and> distinct (map p_name (products s))"


text \<open>Every stored order has a status of the enumeration.\<close>

definition statusesValid :: "store \<Rightarrow> bool" where
  "statusesValid s \<longleftrightarrow> list_all (\<lambda>order. o_status order \<in> set orderStatuses) (orders s)"

text \<open>The \<open>status\<close> property of a request body, if the body is an object that has one.\<close>

definition submittedStatus :: "request \<Rightarrow> json option" where
  "submittedStatus req = (case body req of None \<Rightarrow> None | Some j \<Rightarrow> getProp ''status'' j)"

text \<open>
  The credentials of a login request are accepted for a user: the body passes the
  schema, the user is the one found by the submitted email, has a non-empty password
  hash and the role admin, and the submitted password matches the hash.
\<close>

definition loginAccepted :: "env \<Rightarrow> store \<Rightarrow> request \<Rightarrow> userDoc \<Rightarrow> bool" where
  "loginAccepted E s req user \<longleftrightarrow>
     (\<exists>email password hash.
        adminLoginSchema E (body req) = Inr (email, password)
        \<and> findOne (\<lambda>u. u_email u = email) (users s) = Some user
        \<and> u_passwordHash user = Some hash \<and> hash \<noteq> []
        \<and> u_role user = ''admin''
        \<and> bcryptCompare E password hash)"



text \<open>The handlers of a route that puts both middlewares before its controller.\<close>

definition guarded :: "controller \<Rightarrow> handler list" where
  "guarded c = [AuthenticateToken, RequireAdmin, Controller c]"

section \<open>Example data\<close>

text \<open>
  A concrete environment, store and request, on which the properties below are
  evaluated. The example models accept every document; the example middleware lets
  a request through when it carries the header \<open>Bearer admin\<close>.
\<close>

definition demoEnv :: env where
  "demoEnv =
     \<lparr>JWT_SECRET = Some ''secret'',
      newObjectId = ''0000000000000000000000c9'',
      now = 100,
      isUrl = (\<lambda>s. take 8 s = ''https://''),
      isEmail = (\<lambda>s. CHR ''@'' \<in> set s),
      bcryptCompare = (\<lambda>password hash. hash = ''hash:'' @ password),
      jwtSign = (\<lambda>userId secret expiresIn. userId @ ''.'' @ secret @ ''.'' @ expiresIn),
      jwtVerify = (\<lambda>token secret. None),
      newRegExp = (\<lambda>q. Some (\<lambda>s. True)),
      paginate = (\<lambda>limitNum skip. Some (0, None)),
      CategoryModel = (\<lambda>docs d. True),
      ProductModel = (\<lambda>docs d. True),
      OrderModel = (\<lambda>docs d. True),
      authenticateToken = (\<lambda>s req.
        if authorization req = Some ''Bearer admin'' then Next req
        else Respond (failure 401 ''Access token required'')),
      requireAdmin = (\<lambda>s req. Next req)\<rparr>"

definition demoStore :: store where
  "demoStore =
     \<lparr>categories =
        [\<lparr>c_id = ''0000000000000000000000c1'', c_name = ''Fruits'', c_iconUrl = None,
          c_sort = 2, c_isActive = True\<rparr>,
         \<lparr>c_id = ''0000000000000000000000c2'', c_name = ''Greens'', c_iconUrl = None,
          c_sort = 1, c_isActive = True\<rparr>],
      products =
        [\<lparr>p_id = ''0000000000000000000000a1'', p_name = ''Apple'',
          p_categoryId = ''0000000000000000000000c1'', p_images = [''https://img/apple''],
          p_description = None,
          p_unitPrices = [\<lparr>up_unit = ''kg'', up_step = 1, up_baseQty = 1, up_price = 120,
                            up_compareAt = None, up_stock = 40\<rparr>],
          p_rating = None, p_isActive = True, p_createdAt = 10\<rparr>],
      orders =
        [\<lparr>o_id = ''0000000000000000000000b1'', o_userId = ''0000000000000000000000d2'',
          o_status = ''placed'', o_total = 10, o_createdAt = 20\<rparr>,
         \<lparr>o_id = ''0000000000000000000000b2'', o_userId = ''0000000000000000000000d2'',
          o_status = ''delivered'', o_total = 25, o_createdAt = 30\<rparr>,
         \<lparr>o_id = ''0000000000000000000000b3'', o_userId = ''0000000000000000000000d2'',
          o_status = ''out_for_delivery'', o_total = 5, o_createdAt = 40\<rparr>],
      users =
        [\<lparr>u_id = ''0000000000000000000000d1'', u_name = ''Admin User'',
          u_email = ''admin@veggiefresh.com'', u_phone = None,
          u_passwordHash = Some ''hash:admin123'', u_role = ''admin'', u_avatarUrl = None\<rparr>,
         \<lparr>u_id = ''0000000000000000000000d2'', u_name = ''Customer'',
          u_email = ''customer@veggiefresh.com'', u_phone = None,
          u_passwordHash = Some ''hash:carrot'', u_role = ''user'', u_avatarUrl = None\<rparr>]\<rparr>"

definition demoRequest :: "string \<Rightarrow> json option \<Rightarrow> request" where
  "demoRequest i b =
     \<lparr>reqMethod = GET, reqPath = [], params = [(''id'', i)], query = [],
      authorization = None, body = b\<rparr>"

definition demoCall :: "verb \<Rightarrow> string list \<Rightarrow> string option \<Rightarrow> request" where
  "demoCall v path auth =
     \<lparr>reqMethod = v, reqPath = path, params = [], query = [], authorization = auth,
      body = None\<rparr>"

definition demoLogin :: "string \<Rightarrow> string \<Rightarrow> request" where
  "demoLogin email password =
     demoRequest [] (Some (JObj [(''email'', JStr email), (''password'', JStr password)]))"


text \<open>The example store with three categories, two of them with the same \<open>sort\<close>.\<close>

definition demoShelf :: store where
  "demoShelf = demoStore\<lparr>categories :=
     [\<lparr>c_id = ''0000000000000000000000c1'', c_name = ''Fruits'', c_iconUrl = None,
       c_sort = 1, c_isActive = True\<rparr>,
      \<lparr>c_id = ''0000000000000000000000c2'', c_name = ''Berries'', c_iconUrl = None,
       c_sort = 1, c_isActive = True\<rparr>,
      \<lparr>c_id = ''0000000000000000000000c3'', c_name = ''Greens'', c_iconUrl = None,
       c_sort = 0, c_isActive = False\<rparr>]\<rparr>"

section \<open>Auxiliary lemmas\<close>

lemma sorted_wrt_key:
  "sorted (map (\<lambda>c. (c_sort c, c_name c)) cs) \<Longrightarrow>
   sorted_wrt (\<lambda>a b. c_sort a < c_sort b \<or> (c_sort a = c_sort b \<and> c_name a \<le> c_name b)) cs"
  by (induction cs) (auto simp: less_eq_prod_def)




subsection \<open>What each writing controller does to the store\<close>

lemma findById_throws: "findById idOf docs i = Inl e \<Longrightarrow> e = CastError"
  by (auto simp: findById_def split: option.splits)

lemma createCategory_cases:
  assumes run: "createCategory E s req = (res, s')"
  obtains (failed) code msg where "s' = s" "res = failure code msg" "code = 400 \<or> code = 500"
  | (created) d c where "createCategorySchema E (body req) = Inr d"
       "findOne (\<lambda>x. c_name x = ci_name d) (categories s) = None"
       "c_name c = ci_name d" "c_id c = newObjectId E"
       "CategoryModel E (categories s) c"
       "s' = s\<lparr>categories := categories s @ [c]\<rparr>"
       "res = (succeed 201)\<lparr>data := Some (Category c)\<rparr>"
proof (cases "createCategorySchema E (body req)")
  case (Inl m)
  with run have "res = failure 400 m" "s' = s"
    by (simp_all add: createCategory_def catching_def zodOr500_def)
  then show thesis using failed by simp
next
  case parsed: (Inr d)
  show thesis
  proof (cases "findOne (\<lambda>x. c_name x = ci_name d) (categories s)")
    case (Some existing)
    with run parsed have "res = failure 400 ''Category with this name already exists''" "s' = s"
      by (simp_all add: createCategory_def catching_def zodOr500_def)
    then show thesis using failed by simp
  next
    case None
    let ?c = "\<lparr>c_id = newObjectId E, c_name = ci_name d, c_iconUrl = ci_iconUrl d,
               c_sort = ci_sort d, c_isActive = ci_isActive d\<rparr>"
    show thesis
    proof (cases "CategoryModel E (categories s) ?c")
      case False
      with run parsed None have "res = failure 500 ''Failed to create category''" "s' = s"
        by (simp_all add: createCategory_def catching_def zodOr500_def Category_create_def Let_def)
      then show thesis using failed by simp
    next
      case True
      with run parsed None
      have "s' = s\<lparr>categories := categories s @ [?c]\<rparr>"
        "res = (succeed 201)\<lparr>data := Some (Category ?c)\<rparr>"
        by (simp_all add: createCategory_def catching_def zodOr500_def Category_create_def Let_def)
      then show thesis using created[of d ?c] parsed None True by simp
    qed
  qed
qed

lemma updateCategory_cases:
  assumes run: "updateCategory E s req = (res, s')"
  obtains (failed) code msg where "s' = s" "res = failure code msg"
       "code = 400 \<or> code = 404 \<or> code = 500"
  | (saved) d category where "updateCategorySchema E (body req) = Inr d"
       "findById c_id (categories s) (param ''id'' req) = Inr (Some category)"
       "\<not> nameIsTaken c_name (categories s) (cp_name d) (c_name category)"
       "CategoryModel E (categories s) (assignCategory category d)"
       "s' = s\<lparr>categories := saveDoc c_id (assignCategory category d) (categories s)\<rparr>"
       "res = (succeed 200)\<lparr>data := Some (Category (assignCategory category d))\<rparr>"
proof (cases "updateCategorySchema E (body req)")
  case (Inl m)
  with run have "res = failure 400 m" "s' = s"
    by (simp_all add: updateCategory_def catching_def zodOr500_def)
  then show thesis using failed by simp
next
  case parsed: (Inr d)
  show thesis
  proof (cases "findById c_id (categories s) (param ''id'' req)")
    case (Inl e)
    moreover from Inl have "e = CastError" by (rule findById_throws)
    ultimately have "res = failure 500 ''Failed to update category''" "s' = s"
      using run parsed by (simp_all add: updateCategory_def catching_def zodOr500_def)
    then show thesis using failed by simp
  next
    case (Inr found)
    show thesis
    proof (cases found)
      case None
      with run parsed Inr have "res = failure 404 ''Category not found''" "s' = s"
        by (simp_all add: updateCategory_def catching_def zodOr500_def)
      then show thesis using failed by simp
    next
      case (Some category)
      show thesis
      proof (cases "nameIsTaken c_name (categories s) (cp_name d) (c_name category)")
        case True
        with run parsed Inr Some
        have "res = failure 400 ''Category with this name already exists''" "s' = s"
          by (simp_all add: updateCategory_def catching_def zodOr500_def)
        then show thesis using failed by simp
      next
        case free: False
        show thesis
        proof (cases "CategoryModel E (categories s) (assignCategory category d)")
          case False
          with run parsed Inr Some free
          have "res = failure 500 ''Failed to update category''" "s' = s"
            by (simp_all add: updateCategory_def catching_def zodOr500_def Category_save_def Let_def)
          then show thesis using failed by simp
        next
          case True
          with run parsed Inr Some free
          have "s' = s\<lparr>categories := saveDoc c_id (assignCategory category d) (categories s)\<rparr>"
            "res = (succeed 200)\<lparr>data := Some (Category (assignCategory category d))\<rparr>"
            by (simp_all add: updateCategory_def catching_def zodOr500_def Category_save_def Let_def)
          then show thesis using saved parsed Inr Some free True by simp
        qed
      qed
    qed
  qed
qed

lemma deleteCategory_cases:
  assumes run: "deleteCategory E s req = (res, s')"
  obtains (failed) code msg where "s' = s" "res = failure code msg" "code = 404 \<or> code = 500"
  | (deleted) str oid category where "param ''id'' req = Some str" "castObjectId str = Some oid"
       "find (\<lambda>c. c_id c = oid) (categories s) = Some category"
       "s' = s\<lparr>categories := deleteDoc c_id oid (categories s)\<rparr>"
       "res = (succeed 200)\<lparr>message := Some ''Category deleted successfully''\<rparr>"
proof (cases "param ''id'' req")
  case None
  with run have "res = failure 404 ''Category not found''" "s' = s"
    by (simp_all add: deleteCategory_def catching_def findById_def)
  then show thesis using failed by simp
next
  case (Some str)
  show thesis
  proof (cases "castObjectId str")
    case None
    with run Some have "res = failure 500 ''Failed to delete category''" "s' = s"
      by (simp_all add: deleteCategory_def catching_def findById_def)
    then show thesis using failed by simp
  next
    case cast: (Some oid)
    show thesis
    proof (cases "find (\<lambda>c. c_id c = oid) (categories s)")
      case None
      with run Some cast have "res = failure 404 ''Category not found''" "s' = s"
        by (simp_all add: deleteCategory_def catching_def findById_def)
      then show thesis using failed by simp
    next
      case found: (Some category)
      with run Some cast
      have "s' = s\<lparr>categories := deleteDoc c_id oid (categories s)\<rparr>"
        "res = (succeed 200)\<lparr>message := Some ''Category deleted successfully''\<rparr>"
        by (simp_all add: deleteCategory_def catching_def findById_def findByIdAndDelete_def)
      then show thesis using deleted Some cast found by simp
    qed
  qed
qed

lemma updateOrderStatus_cases:
  assumes run: "updateOrderStatus E s req = (res, s')"
  obtains (failed) code msg where "s' = s" "res = failure code msg"
       "code = 400 \<or> code = 404 \<or> code = 500"
  | (saved) st order where "updateOrderStatusSchema (body req) = Inr st"
       "findById o_id (orders s) (param ''id'' req) = Inr (Some order)"
       "OrderModel E (orders s) (order\<lparr>o_status := st\<rparr>)"
       "s' = s\<lparr>orders := saveDoc o_id (order\<lparr>o_status := st\<rparr>) (orders s)\<rparr>"
       "status res = 200" "success res" "error res = None"
proof (cases "updateOrderStatusSchema (body req)")
  case (Inl m)
  with run have "res = failure 400 m" "s' = s"
    by (simp_all add: updateOrderStatus_def catching_def zodOr500_def)
  then show thesis using failed by simp
next
  case parsed: (Inr st)
  show thesis
  proof (cases "findById o_id (orders s) (param ''id'' req)")
    case (Inl e)
    moreover from Inl have "e = CastError" by (rule findById_throws)
    ultimately have "res = failure 500 ''Failed to update order status''" "s' = s"
      using run parsed by (simp_all add: updateOrderStatus_def catching_def zodOr500_def)
    then show thesis using failed by simp
  next
    case (Inr found)
    show thesis
    proof (cases found)
      case None
      with run parsed Inr have "res = failure 404 ''Order not found''" "s' = s"
        by (simp_all add: updateOrderStatus_def catching_def zodOr500_def)
      then show thesis using failed by simp
    next
      case (Some order)
      show thesis
      proof (cases "OrderModel E (orders s) (order\<lparr>o_status := st\<rparr>)")
        case False
        with run parsed Inr Some
        have "res = failure 500 ''Failed to update order status''" "s' = s"
          by (simp_all add: updateOrderStatus_def catching_def zodOr500_def Order_save_def)
        then show thesis using failed by simp
      next
        case True
        with run parsed Inr Some
        have "s' = s\<lparr>orders := saveDoc o_id (order\<lparr>o_status := st\<rparr>) (orders s)\<rparr>"
          "status res = 200" "success res" "error res = None"
          by (auto simp add: updateOrderStatus_def catching_def zodOr500_def Order_save_def
              succeed_def Let_def)
        then show thesis using saved parsed Inr Some True by simp
      qed
    qed
  qed
qed

lemma categoryMissing_throws: "categoryMissing s i = Inl e \<Longrightarrow> e = CastError"
  by (auto simp: categoryMissing_def dest: findById_throws split: if_splits sum.splits option.splits)

lemma assignProduct_throws: "assignProduct product d = Inl e \<Longrightarrow> e = CastError"
  by (auto simp: assignProduct_def Let_def split: option.splits)

lemma createProduct_cases:
  assumes run: "createProduct E s req = (res, s')"
  obtains (failed) code msg where "s' = s" "res = failure code msg" "code = 400 \<or> code = 500"
  | (created) d category product where "createProductSchema E (body req) = Inr d"
       "findById c_id (categories s) (Some (pi_categoryId d)) = Inr (Some category)"
       "findOne (\<lambda>x. p_name x = pi_name d) (products s) = None"
       "p_name product = pi_name d" "p_id product = newObjectId E"
       "castObjectId (pi_categoryId d) = Some (p_categoryId product)"
       "ProductModel E (products s) product"
       "s' = s\<lparr>products := products s @ [product]\<rparr>"
       "status res = 201" "success res" "error res = None"
proof (cases "createProductSchema E (body req)")
  case (Inl m)
  with run have "res = failure 400 m" "s' = s"
    by (simp_all add: createProduct_def catching_def zodOr500_def)
  then show thesis using failed by simp
next
  case parsed: (Inr d)
  show thesis
  proof (cases "findById c_id (categories s) (Some (pi_categoryId d))")
    case (Inl e)
    moreover from Inl have "e = CastError" by (rule findById_throws)
    ultimately have "res = failure 500 ''Failed to create product''" "s' = s"
      using run parsed by (simp_all add: createProduct_def catching_def zodOr500_def)
    then show thesis using failed by simp
  next
    case (Inr found)
    show thesis
    proof (cases found)
      case None
      with run parsed Inr have "res = failure 400 ''Category not found''" "s' = s"
        by (simp_all add: createProduct_def catching_def zodOr500_def)
      then show thesis using failed by simp
    next
      case (Some category)
      show thesis
      proof (cases "findOne (\<lambda>x. p_name x = pi_name d) (products s)")
        case existing: (Some p)
        with run parsed Inr Some
        have "res = failure 400 ''Product with this name already exists''" "s' = s"
          by (simp_all add: createProduct_def catching_def zodOr500_def)
        then show thesis using failed by simp
      next
        case free: None
        show thesis
        proof (cases "Product_create E d s")
          case (Inl e)
          then have "e = CastError \<or> e = ValidationError"
            by (auto simp: Product_create_def Let_def split: option.splits if_splits)
          with Inl run parsed Inr Some free
          have "res = failure 500 ''Failed to create product''" "s' = s"
            by (auto simp add: createProduct_def catching_def zodOr500_def)
          then show thesis using failed by simp
        next
          case made: (Inr out)
          obtain product s1 where out: "out = (product, s1)" by (cases out)
          from made out have facts: "p_name product = pi_name d" "p_id product = newObjectId E"
            "castObjectId (pi_categoryId d) = Some (p_categoryId product)"
            "ProductModel E (products s) product"
            "s1 = s\<lparr>products := products s @ [product]\<rparr>"
            by (auto simp: Product_create_def Let_def split: option.splits if_splits)
          from run parsed Inr Some free made out
          have "s' = s1" "status res = 201" "success res" "error res = None"
            by (auto simp add: createProduct_def catching_def zodOr500_def succeed_def Let_def)
          then show thesis using created[of d category product] parsed Inr Some free facts by simp
        qed
      qed
    qed
  qed
qed

lemma updateProduct_cases:
  assumes run: "updateProduct E s req = (res, s')"
  obtains (failed) code msg where "s' = s" "res = failure code msg"
       "code = 400 \<or> code = 404 \<or> code = 500"
  | (saved) d product product' where "updateProductSchema E (body req) = Inr d"
       "findById p_id (products s) (param ''id'' req) = Inr (Some product)"
       "categoryMissing s (pp_categoryId d) = Inr False"
       "\<not> nameIsTaken p_name (products s) (pp_name d) (p_name product)"
       "assignProduct product d = Inr product'"
       "ProductModel E (products s) product'"
       "s' = s\<lparr>products := saveDoc p_id product' (products s)\<rparr>"
       "status res = 200" "success res" "error res = None"
proof (cases "updateProductSchema E (body req)")
  case (Inl m)
  with run have "res = failure 400 m" "s' = s"
    by (simp_all add: updateProduct_def catching_def zodOr500_def)
  then show thesis using failed by simp
next
  case parsed: (Inr d)
  show thesis
  proof (cases "findById p_id (products s) (param ''id'' req)")
    case (Inl e)
    moreover from Inl have "e = CastError" by (rule findById_throws)
    ultimately have "res = failure 500 ''Failed to update product''" "s' = s"
      using run parsed by (simp_all add: updateProduct_def catching_def zodOr500_def)
    then show thesis using failed by simp
  next
    case (Inr found)
    show thesis
    proof (cases found)
      case None
      with run parsed Inr have "res = failure 404 ''Product not found''" "s' = s"
        by (simp_all add: updateProduct_def catching_def zodOr500_def)
      then show thesis using failed by simp
    next
      case (Some product)
      show thesis
      proof (cases "categoryMissing s (pp_categoryId d)")
        case (Inl e)
        moreover from Inl have "e = CastError" by (rule categoryMissing_throws)
        ultimately have "res = failure 500 ''Failed to update product''" "s' = s"
          using run parsed Inr Some by (simp_all add: updateProduct_def catching_def zodOr500_def)
        then show thesis using failed by simp
      next
        case checked: (Inr missing)
        show thesis
        proof (cases missing)
          case True
          with run parsed Inr Some checked
          have "res = failure 400 ''Category not found''" "s' = s"
            by (simp_all add: updateProduct_def catching_def zodOr500_def)
          then show thesis using failed by simp
        next
          case present: False
          show thesis
          proof (cases "nameIsTaken p_name (products s) (pp_name d) (p_name product)")
            case True
            with run parsed Inr Some checked present
            have "res = failure 400 ''Product with this name already exists''" "s' = s"
              by (simp_all add: updateProduct_def catching_def zodOr500_def)
            then show thesis using failed by simp
          next
            case free: False
            show thesis
            proof (cases "assignProduct product d")
              case (Inl e)
              moreover from Inl have "e = CastError" by (rule assignProduct_throws)
              ultimately have "res = failure 500 ''Failed to update product''" "s' = s"
                using run parsed Inr Some checked present free
                by (simp_all add: updateProduct_def catching_def zodOr500_def)
              then show thesis using failed by simp
            next
              case assigned: (Inr product')
              show thesis
              proof (cases "ProductModel E (products s) product'")
                case False
                with run parsed Inr Some checked present free assigned
                have "res = failure 500 ''Failed to update product''" "s' = s"
                  by (simp_all add: updateProduct_def catching_def zodOr500_def Product_save_def)
                then show thesis using failed by simp
              next
                case True
                with run parsed Inr Some checked present free assigned
                have "s' = s\<lparr>products := saveDoc p_id product' (products s)\<rparr>"
                  "status res = 200" "success res" "error res = None"
                  by (auto simp add: updateProduct_def catching_def zodOr500_def Product_save_def
                      succeed_def Let_def)
                then show thesis
                  using saved[of d product product'] parsed Inr Some checked present free
                    assigned True by simp
              qed
            qed
          qed
        qed
      qed
    qed
  qed
qed

lemma deleteProduct_cases:
  assumes run: "deleteProduct E s req = (res, s')"
  obtains (failed) code msg where "s' = s" "res = failure code msg" "code = 404 \<or> code = 500"
  | (deleted) str oid product where "param ''id'' req = Some str" "castObjectId str = Some oid"
       "find (\<lambda>p. p_id p = oid) (products s) = Some product"
       "s' = s\<lparr>products := deleteDoc p_id oid (products s)\<rparr>"
       "res = (succeed 200)\<lparr>message := Some ''Product deleted successfully''\<rparr>"
proof (cases "param ''id'' req")
  case None
  with run have "res = failure 404 ''Product not found''" "s' = s"
    by (simp_all add: deleteProduct_def catching_def findById_def)
  then show thesis using failed by simp
next
  case (Some str)
  show thesis
  proof (cases "castObjectId str")
    case None
    with run Some have "res = failure 500 ''Failed to delete product''" "s' = s"
      by (simp_all add: deleteProduct_def catching_def findById_def)
    then show thesis using failed by simp
  next
    case cast: (Some oid)
    show thesis
    proof (cases "find (\<lambda>p. p_id p = oid) (products s)")
      case None
      with run Some cast have "res = failure 404 ''Product not found''" "s' = s"
        by (simp_all add: deleteProduct_def catching_def findById_def)
      then show thesis using failed by simp
    next
      case found: (Some product)
      with run Some cast
      have "s' = s\<lparr>products := deleteDoc p_id oid (products s)\<rparr>"
        "res = (succeed 200)\<lparr>message := Some ''Product deleted successfully''\<rparr>"
        by (simp_all add: deleteProduct_def catching_def findById_def findByIdAndDelete_def)
      then show thesis using deleted Some cast found by simp
    qed
  qed
qed

subsection \<open>The controllers that only read\<close>

lemma shaped_failure: "code = 400 \<or> code = 401 \<or> code = 403 \<or> code = 404 \<or> code = 500 \<Longrightarrow> shaped (failure code msg)"
  by (auto simp: shaped_def failure_def)

lemma shaped_succeed:
  "code = 200 \<or> code = 201 \<Longrightarrow> shaped ((succeed code)\<lparr>data := d\<rparr>)"
  "code = 200 \<or> code = 201 \<Longrightarrow> shaped ((succeed code)\<lparr>message := m\<rparr>)"
  "code = 200 \<or> code = 201 \<Longrightarrow> shaped ((succeed code)\<lparr>data := d, meta := pm\<rparr>)"
  "code = 200 \<or> code = 201 \<Longrightarrow> shaped ((succeed code)\<lparr>data := d, message := m\<rparr>)"
  by (auto simp: shaped_def succeed_def)

lemma getCategories_reads: "snd (getCategories E s req) = s \<and> shaped (fst (getCategories E s req))"
  by (simp add: getCategories_def catching_def Let_def shaped_succeed)

lemma getCategoryById_reads:
  "snd (getCategoryById E s req) = s \<and> shaped (fst (getCategoryById E s req))"
  by (auto simp: getCategoryById_def catching_def shaped_succeed shaped_failure
      split: sum.splits option.splits)

lemma getOrderById_reads:
  "snd (getOrderById E s req) = s \<and> shaped (fst (getOrderById E s req))"
  by (auto simp: getOrderById_def catching_def shaped_succeed shaped_failure
      split: sum.splits option.splits)

lemma getProductById_reads:
  "snd (getProductById E s req) = s \<and> shaped (fst (getProductById E s req))"
  by (auto simp: getProductById_def catching_def shaped_succeed shaped_failure
      split: sum.splits option.splits)

lemma getOrderStats_reads:
  "snd (getOrderStats E s req) = s \<and> shaped (fst (getOrderStats E s req))"
  by (simp add: getOrderStats_def catching_def Let_def shaped_succeed)

lemma getAllOrders_reads:
  "snd (getAllOrders E s req) = s \<and> shaped (fst (getAllOrders E s req))"
  by (auto simp: getAllOrders_def catching_def Let_def shaped_succeed shaped_failure
      split: sum.splits option.splits)

lemma getProducts_reads:
  "snd (getProducts E s req) = s \<and> shaped (fst (getProducts E s req))"
  by (auto simp: getProducts_def catching_def Let_def shaped_succeed shaped_failure
      split: sum.splits option.splits)

lemma adminLogin_reads:
  "snd (adminLogin E s req) = s \<and> shaped (fst (adminLogin E s req))"
  by (auto simp: adminLogin_def catching_def Let_def shaped_succeed shaped_failure
      split: sum.splits option.splits prod.splits)

lemma getAdminProfile_reads:
  "snd (getAdminProfile E s req) = s \<and> shaped (fst (getAdminProfile E s req))"
  by (auto simp: getAdminProfile_def catching_def Let_def shaped_succeed shaped_failure
      split: sum.splits option.splits)

subsection \<open>Facts about the mapper and the schemas\<close>

lemma failure_status [simp]: "status (failure code msg) = code"
  by (simp add: failure_def)

lemma set_saveDoc: "set (saveDoc idOf d xs) \<subseteq> insert d (set xs)"
  by (induction xs) auto

lemma findById_member: "findById idOf docs i = Inr (Some d) \<Longrightarrow> d \<in> set docs"
  by (auto simp: findById_def find_Some_iff split: option.splits)

lemma updateOrderStatusSchema_Inr:
  assumes "updateOrderStatusSchema (body req) = Inr st"
  shows "st \<in> set orderStatuses" and "submittedStatus req = Some (JStr st)"
  using assms
  by (auto simp: updateOrderStatusSchema_def zObject_def zEnum_def bindE_def submittedStatus_def
      split: option.splits json.splits if_splits)

lemma updateOrderStatus_invalid:
  "updateOrderStatusSchema (body req) = Inl m \<Longrightarrow> updateOrderStatus E s req = (failure 400 m, s)"
  by (simp add: updateOrderStatus_def catching_def zodOr500_def)

text \<open>The definitions unfolded to evaluate a controller on the example data.\<close>

lemmas schema_defs = zObject_def zEnum_def zString_def zNumber_def zBoolean_def zInt_def
  zOptional_def zDefault_def zArray_def bindE_def invalid_type_def requiredName_def
  iconUrlSchema_def trim_def isWhiteSpace_def

lemmas mapper_defs = findById_def findOne_def findByIdAndDelete_def castObjectId_def
  isHexDigit_def lowerHex_def param_def catching_def zodOr500_def

lemmas demo_defs = demoEnv_def demoStore_def demoRequest_def

subsection \<open>Running a route\<close>

lemma runHandlers_guarded:
  assumes "runHandlers E (guarded c) s req = (trace, res, s')"
  shows "res \<noteq> None"
    and "Controller c' \<in> set trace \<Longrightarrow>
         c' = c \<and> (\<exists>req2 req3. authenticateToken E s req = Next req2
             \<and> requireAdmin E s req2 = Next req3
             \<and> trace = guarded c
             \<and> res = Some (fst (controllerOf c E s req3))
             \<and> s' = snd (controllerOf c E s req3))"
  using assms
  by (auto simp: guarded_def split: step.splits prod.splits)

lemma runHandlers_open:
  assumes "runHandlers E [Controller c] s req = (trace, res, s')"
  shows "res \<noteq> None" and "trace = [Controller c]"
  using assms by (auto split: prod.splits)

lemma dispatch_guarded:
  assumes "list_all (\<lambda>route. snd (snd route) = [Controller AdminLogin]
                       \<or> (\<exists>c. snd (snd route) = guarded c)) routes"
    and "dispatch E routes s req = (trace, res, s')"
    and "Controller c \<in> set trace" and "c \<noteq> AdminLogin"
  shows "\<exists>req1 req2 req3. authenticateToken E s req1 = Next req2
             \<and> requireAdmin E s req2 = Next req3
             \<and> trace = guarded c
             \<and> res = Some (fst (controllerOf c E s req3))
             \<and> s' = snd (controllerOf c E s req3)"
  using assms
proof (induction routes)
  case Nil
  then show ?case by simp
next
  case (Cons route routes)
  obtain v pattern handlers where route: "route = (v, pattern, handlers)" by (cases route)
  show ?case
  proof (cases "v = reqMethod req \<and> matchPath pattern (reqPath req) \<noteq> None")
    case False
    with Cons.prems route have "dispatch E routes s req = (trace, res, s')"
      by (auto split: option.splits)
    with Cons show ?thesis by simp
  next
    case True
    then obtain kvs where kvs: "matchPath pattern (reqPath req) = Some kvs" and v: "v = reqMethod req"
      by auto
    obtain tr r s1 where ran: "runHandlers E handlers s (req\<lparr>params := kvs\<rparr>) = (tr, r, s1)"
      by (cases "runHandlers E handlers s (req\<lparr>params := kvs\<rparr>)")
    from Cons.prems(1) route
    consider (login) "handlers = [Controller AdminLogin]" | (behind) g where "handlers = guarded g"
      by auto
    then show ?thesis
    proof cases
      case login
      with ran have "r \<noteq> None" "tr = [Controller AdminLogin]"
        using runHandlers_open[of E AdminLogin s "req\<lparr>params := kvs\<rparr>" tr r s1] by simp_all
      with Cons.prems(2) route kvs v ran have "trace = [Controller AdminLogin]"
        by (auto split: option.splits)
      with Cons.prems(3,4) show ?thesis by simp
    next
      case (behind g)
      with ran have some: "r \<noteq> None"
        using runHandlers_guarded(1)[of E g s "req\<lparr>params := kvs\<rparr>" tr r s1] by simp
      with Cons.prems(2) route kvs v ran have same: "trace = tr" "res = r" "s' = s1"
        by (auto split: option.splits)
      with Cons.prems(3) have "Controller c \<in> set tr" by simp
      with behind ran same show ?thesis
        using runHandlers_guarded(2)[of E g s "req\<lparr>params := kvs\<rparr>" tr r s1 c] by blast
    qed
  qed
qed

lemma routers_guarded:
  "list_all (\<lambda>(prefix, router).
      list_all (\<lambda>(v, pattern, handlers).
          (prefix = ''auth'' \<and> v = POST \<and> pattern = [Lit ''login'']
             \<and> handlers = [Controller AdminLogin])
          \<or> (\<exists>c. c \<noteq> AdminLogin \<and> handlers = guarded c)) router) mounts"
  by (simp add: mounts_def authRouter_def productsRouter_def categoriesRouter_def
      ordersRouter_def guarded_def)

lemma demo_stats_trace:
  "fst (app demoEnv demoStore (demoCall GET [''orders'', ''stats''] (Some ''Bearer admin'')))
     = [AuthenticateToken, RequireAdmin, Controller GetOrderStats]"
  by (simp add: app_def mounts_def ordersRouter_def demoCall_def demoEnv_def getOrderStats_def
      catching_def lowerCase_def Let_def)

lemma demo_stats_refused:
  "fst (app demoEnv demoStore (demoCall GET [''orders'', ''stats''] None)) = [AuthenticateToken]
   \<and> fst (snd (app demoEnv demoStore (demoCall GET [''orders'', ''stats''] None)))
       = Some (failure 401 ''Access token required'')"
  by (simp add: app_def mounts_def ordersRouter_def demoCall_def demoEnv_def lowerCase_def)

subsection \<open>The outcomes of a login\<close>

lemma truthy_Some: "truthy v \<longleftrightarrow> (\<exists>x. v = Some x \<and> x \<noteq> [])"
  by (cases v) (auto simp: truthy_def)

lemma adminLogin_cases:
  assumes run: "adminLogin E s req = (res, s')"
  obtains (invalid) m where "adminLoginSchema E (body req) = Inl m"
      "res = failure 400 ''Validation error''" "s' = s"
  | (unknown) email password where "adminLoginSchema E (body req) = Inr (email, password)"
      "findOne (\<lambda>u. u_email u = email) (users s) = None"
      "res = failure 401 ''Invalid credentials''" "s' = s"
  | (nohash) email password user where "adminLoginSchema E (body req) = Inr (email, password)"
      "findOne (\<lambda>u. u_email u = email) (users s) = Some user"
      "\<not> truthy (u_passwordHash user)"
      "res = failure 401 ''Invalid credentials''" "s' = s"
  | (notadmin) email password user where "adminLoginSchema E (body req) = Inr (email, password)"
      "findOne (\<lambda>u. u_email u = email) (users s) = Some user"
      "truthy (u_passwordHash user)" "u_role user \<noteq> ''admin''"
      "res = failure 403 ''Admin access required''" "s' = s"
  | (mismatch) email password user hash where
      "adminLoginSchema E (body req) = Inr (email, password)"
      "findOne (\<lambda>u. u_email u = email) (users s) = Some user"
      "u_passwordHash user = Some hash" "hash \<noteq> []" "u_role user = ''admin''"
      "\<not> bcryptCompare E password hash"
      "res = failure 401 ''Invalid credentials''" "s' = s"
  | (nosecret) user where "loginAccepted E s req user" "\<not> truthy (JWT_SECRET E)"
      "res = failure 400 ''Login failed''" "s' = s"
  | (issued) user secret where "loginAccepted E s req user"
      "JWT_SECRET E = Some secret" "secret \<noteq> []"
      "res = (succeed 200)\<lparr>data := Some (Login (viewOf user)
                (jwtSign E (u_id user) secret ''1d'') (jwtSign E (u_id user) secret ''30d''))\<rparr>"
      "s' = s"
proof (cases "adminLoginSchema E (body req)")
  case (Inl m)
  with run have "res = failure 400 ''Validation error''" "s' = s"
    by (simp_all add: adminLogin_def catching_def)
  then show thesis using invalid Inl by simp
next
  case (Inr credentials)
  obtain email password where parsed: "adminLoginSchema E (body req) = Inr (email, password)"
    using Inr by (cases credentials) simp
  show thesis
  proof (cases "findOne (\<lambda>u. u_email u = email) (users s)")
    case None
    with run parsed have "res = failure 401 ''Invalid credentials''" "s' = s"
      by (simp_all add: adminLogin_def catching_def)
    then show thesis using unknown parsed None by simp
  next
    case (Some user)
    show thesis
    proof (cases "truthy (u_passwordHash user)")
      case False
      with run parsed Some have "res = failure 401 ''Invalid credentials''" "s' = s"
        by (simp_all add: adminLogin_def catching_def)
      then show thesis using nohash parsed Some False by simp
    next
      case True
      then obtain hash where hash: "u_passwordHash user = Some hash" "hash \<noteq> []"
        by (auto simp: truthy_Some)
      show thesis
      proof (cases "u_role user = ''admin''")
        case False
        with run parsed Some True have "res = failure 403 ''Admin access required''" "s' = s"
          by (simp_all add: adminLogin_def catching_def)
        then show thesis using notadmin parsed Some True False by simp
      next
        case admin: True
        show thesis
        proof (cases "bcryptCompare E password hash")
          case False
          with run parsed Some True admin hash
          have "res = failure 401 ''Invalid credentials''" "s' = s"
            by (simp_all add: adminLogin_def catching_def orDefault_def)
          then show thesis using mismatch parsed Some hash admin False by simp
        next
          case matches: True
          have accepted: "loginAccepted E s req user"
            unfolding loginAccepted_def using parsed Some hash admin matches by blast
          show thesis
          proof (cases "truthy (JWT_SECRET E)")
            case False
            with run parsed Some True admin hash matches
            have "res = failure 400 ''Login failed''" "s' = s"
              by (simp_all add: adminLogin_def catching_def orDefault_def generateTokens_def)
            then show thesis using nosecret accepted False by simp
          next
            case configured: True
            then obtain secret where secret: "JWT_SECRET E = Some secret" "secret \<noteq> []"
              by (auto simp: truthy_Some)
            with run parsed Some True admin hash matches configured
            have "res = (succeed 200)\<lparr>data := Some (Login (viewOf user)
                (jwtSign E (u_id user) secret ''1d'') (jwtSign E (u_id user) secret ''30d''))\<rparr>"
              "s' = s"
              by (simp_all add: adminLogin_def catching_def orDefault_def generateTokens_def
                  Let_def)
            then show thesis using issued accepted secret by simp
          qed
        qed
      qed
    qed
  qed
qed

lemma loginAccepted_parsed:
  assumes "loginAccepted E s req user" and "adminLoginSchema E (body req) = Inr (email, password)"
  shows "findOne (\<lambda>u. u_email u = email) (users s) = Some user"
    and "truthy (u_passwordHash user)" and "u_role user = ''admin''"
    and "bcryptCompare E password (orDefault (u_passwordHash user) [])"
  using assms by (auto simp: loginAccepted_def truthy_Some orDefault_def)

lemma loginAccepted_valid:
  "loginAccepted E s req user \<Longrightarrow> \<exists>email password. adminLoginSchema E (body req) = Inr (email, password)"
  by (auto simp: loginAccepted_def)

lemmas login_defs = adminLogin_def adminLoginSchema_def generateTokens_def viewOf_def
  truthy_def orDefault_def demoLogin_def

lemma demo_admin_accepted:
  "loginAccepted E demoStore (demoLogin ''admin@veggiefresh.com'' ''admin123'') user
   \<longleftrightarrow> isEmail E ''admin@veggiefresh.com'' \<and> user = hd (users demoStore)
       \<and> bcryptCompare E ''admin123'' ''hash:admin123''"
  by (auto simp add: loginAccepted_def login_defs schema_defs mapper_defs demoStore_def demoRequest_def)

subsection \<open>References from products to categories\<close>






lemma set_deleteDoc: "set (deleteDoc idOf i xs) \<subseteq> set xs"
  by (induction xs) auto




lemma find_id: "find (\<lambda>x. idOf x = oid) docs = Some d \<Longrightarrow> d \<in> set docs \<and> idOf d = oid"
  by (auto simp: find_Some_iff)





lemma reads_store:
  "snd (getCategories E s req) = s" "snd (getCategoryById E s req) = s"
  "snd (getOrderById E s req) = s" "snd (getProductById E s req) = s"
  "snd (getOrderStats E s req) = s" "snd (getAllOrders E s req) = s"
  "snd (getProducts E s req) = s" "snd (adminLogin E s req) = s"
  "snd (getAdminProfile E s req) = s"
  by (simp_all add: getCategories_reads getCategoryById_reads getOrderById_reads
      getProductById_reads getOrderStats_reads getAllOrders_reads getProducts_reads
      adminLogin_reads getAdminProfile_reads)








subsection \<open>Distinct names\<close>

lemma distinct_saveDoc:
  assumes "distinct (map f xs)" and "find (\<lambda>x. idOf x = idOf d) xs = Some old"
    and "f d = f old \<or> f d \<notin> f ` set xs"
  shows "distinct (map f (saveDoc idOf d xs))"
  using assms
proof (induction xs)
  case Nil
  then show ?case by simp
next
  case (Cons x xs)
  show ?case
  proof (cases "idOf x = idOf d")
    case True
    with Cons.prems show ?thesis by auto
  next
    case False
    with Cons.prems have found: "find (\<lambda>x. idOf x = idOf d) xs = Some old" by simp
    then have old: "old \<in> set xs" by (auto simp: find_Some_iff)
    with Cons.prems have keep: "f d = f old \<or> f d \<notin> f ` set xs" by auto
    have "distinct (map f (saveDoc idOf d xs))"
      using Cons.IH Cons.prems(1) found keep by simp
    moreover have "f x \<noteq> f d" using Cons.prems(1,3) old by force
    then have "f x \<notin> f ` set (saveDoc idOf d xs)"
      using Cons.prems(1) set_saveDoc[of idOf d xs] by auto
    ultimately show ?thesis using False by simp
  qed
qed

lemma distinct_deleteDoc: "distinct (map f xs) \<Longrightarrow> distinct (map f (deleteDoc idOf i xs))"
proof (induction xs)
  case Nil
  then show ?case by simp
next
  case (Cons x xs)
  have "f ` set (deleteDoc idOf i xs) \<subseteq> f ` set xs"
    using set_deleteDoc[of idOf i xs] by blast
  with Cons show ?case by auto
qed

lemma nameIsTaken_free:
  assumes "\<not> nameIsTaken nameOf docs newName oldName"
  shows "(case newName of None \<Rightarrow> oldName | Some n \<Rightarrow> n) = oldName
       \<or> (case newName of None \<Rightarrow> oldName | Some n \<Rightarrow> n) = []
       \<or> (case newName of None \<Rightarrow> oldName | Some n \<Rightarrow> n) \<notin> nameOf ` set docs"
  using assms
  by (auto simp: nameIsTaken_def findOne_def find_None_iff split: option.splits if_splits)

lemma findById_id:
  "findById idOf docs i = Inr (Some d) \<Longrightarrow> find (\<lambda>x. idOf x = idOf d) docs = Some d"
  by (auto simp: findById_def find_Some_iff split: option.splits)

lemma assignProduct_name:
  assumes "assignProduct product d = Inr product'"
  shows "p_id product' = p_id product"
    and "p_name product' = (case pp_name d of None \<Rightarrow> p_name product | Some n \<Rightarrow> n)"
  using assms by (auto simp: assignProduct_def Let_def split: option.splits)

text \<open>
  When the models reject a document whose name is empty, every controller keeps the
  names of the categories distinct and the names of the products distinct: the
  lookups of the create and update controllers cover every name but the empty one.
\<close>

lemma namesDistinct_preserved:
  assumes names: "namesDistinct s" and run: "controllerOf c E s req = (res, s')"
    and cats: "\<And>docs d. CategoryModel E docs d \<Longrightarrow> c_name d \<noteq> []"
    and prods: "\<And>docs d. ProductModel E docs d \<Longrightarrow> p_name d \<noteq> []"
  shows "namesDistinct s'"
proof (cases c)
  case CreateCategory
  with run have "createCategory E s req = (res, s')" by simp
  then show ?thesis using names
    by (cases rule: createCategory_cases)
      (auto simp: namesDistinct_def findOne_def find_None_iff)
next
  case UpdateCategory
  with run have "updateCategory E s req = (res, s')" by simp
  then show ?thesis
  proof (cases rule: updateCategory_cases)
    case (failed code msg)
    with names show ?thesis by simp
  next
    case (saved d category)
    let ?new = "assignCategory category d"
    have "find (\<lambda>x. c_id x = c_id ?new) (categories s) = Some category"
      using findById_id[OF saved(2)] by (simp add: assignCategory_def)
    moreover have "c_name ?new \<noteq> []" using cats saved(4) by blast
    then have "c_name ?new = c_name category \<or> c_name ?new \<notin> c_name ` set (categories s)"
      using nameIsTaken_free[OF saved(3)] by (simp add: assignCategory_def)
    ultimately have "distinct (map c_name (saveDoc c_id ?new (categories s)))"
      using names by (intro distinct_saveDoc) (simp_all add: namesDistinct_def)
    with names saved(5) show ?thesis by (simp add: namesDistinct_def)
  qed
next
  case DeleteCategory
  with run have "deleteCategory E s req = (res, s')" by simp
  then show ?thesis using names
    by (cases rule: deleteCategory_cases) (auto simp: namesDistinct_def distinct_deleteDoc)
next
  case CreateProduct
  with run have "createProduct E s req = (res, s')" by simp
  then show ?thesis using names
    by (cases rule: createProduct_cases)
      (auto simp: namesDistinct_def findOne_def find_None_iff)
next
  case UpdateProduct
  with run have "updateProduct E s req = (res, s')" by simp
  then show ?thesis
  proof (cases rule: updateProduct_cases)
    case (failed code msg)
    with names show ?thesis by simp
  next
    case (saved d product product')
    have "find (\<lambda>x. p_id x = p_id product') (products s) = Some product"
      using findById_id[OF saved(2)] assignProduct_name(1)[OF saved(5)] by simp
    moreover have "p_name product' \<noteq> []" using prods saved(6) by blast
    then have "p_name product' = p_name product \<or> p_name product' \<notin> p_name ` set (products s)"
      using nameIsTaken_free[OF saved(4)] assignProduct_name(2)[OF saved(5)] by simp
    ultimately have "distinct (map p_name (saveDoc p_id product' (products s)))"
      using names by (intro distinct_saveDoc) (simp_all add: namesDistinct_def)
    with names saved(7) show ?thesis by (simp add: namesDistinct_def)
  qed
next
  case DeleteProduct
  with run have "deleteProduct E s req = (res, s')" by simp
  then show ?thesis using names
    by (cases rule: deleteProduct_cases) (auto simp: namesDistinct_def distinct_deleteDoc)
next
  case UpdateOrderStatus
  with run have "updateOrderStatus E s req = (res, s')" by simp
  then show ?thesis using names
    by (cases rule: updateOrderStatus_cases) (auto simp: namesDistinct_def)
qed (use run names reads_store in \<open>auto simp: prod_eq_iff\<close>)

lemma demo_sorted:
  "getCategories E demoShelf req =
     ((succeed 200)\<lparr>data := Some (CategoryList
        [\<lparr>c_id = ''0000000000000000000000c3'', c_name = ''Greens'', c_iconUrl = None,
          c_sort = 0, c_isActive = False\<rparr>,
         \<lparr>c_id = ''0000000000000000000000c2'', c_name = ''Berries'', c_iconUrl = None,
          c_sort = 1, c_isActive = True\<rparr>,
         \<lparr>c_id = ''0000000000000000000000c1'', c_name = ''Fruits'', c_iconUrl = None,
          c_sort = 1, c_isActive = True\<rparr>])\<rparr>, demoShelf)"
  by (simp add: getCategories_def catching_def demoShelf_def less_eq_prod_def
      less_eq_char_def less_char_def)


section \<open>Properties of the controllers\<close>


text \<open>
  Claim C2. For every request to \<open>updateOrderStatus\<close>: each order of the new store
  is an order of the old store or one of them with its status set to a value of the
  enumeration (placed, confirmed, preparing, out_for_delivery, delivered, cancelled);
  a body whose \<open>status\<close> is not a string of the enumeration (or is missing) is
  answered 400 and the store stays as it was; and if every stored order had a status of
  the enumeration before, every one has after.
\<close>

theorem updateOrderStatus_enum:
  assumes run: "updateOrderStatus E s req = (res, s')"
  shows "list_all (\<lambda>order'. order' \<in> set (orders s)
             \<or> (\<exists>order st. order \<in> set (orders s) \<and> st \<in> set orderStatuses
                   \<and> order' = order\<lparr>o_status := st\<rparr>)) (orders s')
       \<and> (submittedStatus req \<notin> set (map (\<lambda>st. Some (JStr st)) orderStatuses)
            \<longrightarrow> status res = 400 \<and> s' = s)
       \<and> (statusesValid s \<longrightarrow> statusesValid s')"
proof (intro conjI impI)
  show "list_all (\<lambda>order'. order' \<in> set (orders s)
             \<or> (\<exists>order st. order \<in> set (orders s) \<and> st \<in> set orderStatuses
                   \<and> order' = order\<lparr>o_status := st\<rparr>)) (orders s')"
    using run
  proof (cases rule: updateOrderStatus_cases)
    case (failed code msg)
    then show ?thesis by (simp add: list_all_iff)
  next
    case (saved st order)
    have "st \<in> set orderStatuses" using saved(1) by (rule updateOrderStatusSchema_Inr)
    moreover have "order \<in> set (orders s)" using saved(2) by (rule findById_member)
    ultimately show ?thesis
      using saved(4) set_saveDoc[of o_id "order\<lparr>o_status := st\<rparr>" "orders s"]
      by (auto simp: list_all_iff)
  qed
next
  assume outside: "submittedStatus req \<notin> set (map (\<lambda>st. Some (JStr st)) orderStatuses)"
  have "\<exists>m. updateOrderStatusSchema (body req) = Inl m"
  proof (cases "updateOrderStatusSchema (body req)")
    case (Inr st)
    then have "st \<in> set orderStatuses" "submittedStatus req = Some (JStr st)"
      by (rule updateOrderStatusSchema_Inr)+
    with outside show ?thesis by auto
  qed blast
  then obtain m where "updateOrderStatusSchema (body req) = Inl m" ..
  then have "updateOrderStatus E s req = (failure 400 m, s)" by (rule updateOrderStatus_invalid)
  with run have "res = failure 400 m" and same: "s' = s" by simp_all
  then show "status res = 400" and "s' = s" by simp_all
next
  assume valid: "statusesValid s"
  from run show "statusesValid s'"
  proof (cases rule: updateOrderStatus_cases)
    case (failed code msg)
    with valid show ?thesis by simp
  next
    case (saved st order)
    have "st \<in> set orderStatuses" using saved(1) by (rule updateOrderStatusSchema_Inr)
    then show ?thesis
      using valid saved(4) set_saveDoc[of o_id "order\<lparr>o_status := st\<rparr>" "orders s"]
      by (auto simp: statusesValid_def list_all_iff)
  qed
qed

text \<open>
  On the example store: setting the first order to confirmed succeeds and keeps the
  statuses in the enumeration; the status \<open>shipped\<close> is answered 400 with the
  store unchanged.
\<close>

theorem updateOrderStatus_enum_witness:
  "map o_status (orders (snd (updateOrderStatus demoEnv demoStore
      (demoRequest ''0000000000000000000000b1'' (Some (JObj [(''status'', JStr ''confirmed'')]))))))
     = [''confirmed'', ''delivered'', ''out_for_delivery'']
   \<and> statusesValid demoStore
   \<and> statusesValid (snd (updateOrderStatus demoEnv demoStore
      (demoRequest ''0000000000000000000000b1'' (Some (JObj [(''status'', JStr ''confirmed'')])))))
   \<and> submittedStatus
        (demoRequest ''0000000000000000000000b1'' (Some (JObj [(''status'', JStr ''shipped'')])))
       = Some (JStr ''shipped'')
   \<and> status (fst (updateOrderStatus demoEnv demoStore
      (demoRequest ''0000000000000000000000b1'' (Some (JObj [(''status'', JStr ''shipped'')]))))) = 400
   \<and> snd (updateOrderStatus demoEnv demoStore
      (demoRequest ''0000000000000000000000b1'' (Some (JObj [(''status'', JStr ''shipped'')]))))
       = demoStore"
  using updateOrderStatus_enum[of demoEnv demoStore
      "demoRequest ''0000000000000000000000b1'' (Some (JObj [(''status'', JStr ''confirmed'')]))"
      "fst (updateOrderStatus demoEnv demoStore
        (demoRequest ''0000000000000000000000b1'' (Some (JObj [(''status'', JStr ''confirmed'')]))))"
      "snd (updateOrderStatus demoEnv demoStore
        (demoRequest ''0000000000000000000000b1'' (Some (JObj [(''status'', JStr ''confirmed'')]))))"]
    updateOrderStatus_enum[of demoEnv demoStore
      "demoRequest ''0000000000000000000000b1'' (Some (JObj [(''status'', JStr ''shipped'')]))"
      "fst (updateOrderStatus demoEnv demoStore
        (demoRequest ''0000000000000000000000b1'' (Some (JObj [(''status'', JStr ''shipped'')]))))"
      "snd (updateOrderStatus demoEnv demoStore
        (demoRequest ''0000000000000000000000b1'' (Some (JObj [(''status'', JStr ''shipped'')]))))"]
  by (simp add: updateOrderStatus_def updateOrderStatusSchema_def orderStatuses_def Order_save_def
      statusesValid_def submittedStatus_def schema_defs mapper_defs demo_defs Let_def)




text \<open>
  Claim C4, as stated, fails: with \<open>JWT_SECRET\<close> unset, the credentials of the
  example administrator are accepted and the answer is 400 \<open>Login failed\<close>
  with no token; and a wrong password for a user who is no administrator is answered
  403, not 401, because the role is checked before the password.
\<close>

theorem adminLogin_counterexample:
  "loginAccepted (demoEnv\<lparr>JWT_SECRET := None\<rparr>) demoStore
      (demoLogin ''admin@veggiefresh.com'' ''admin123'') (hd (users demoStore))
   \<and> fst (adminLogin (demoEnv\<lparr>JWT_SECRET := None\<rparr>) demoStore
        (demoLogin ''admin@veggiefresh.com'' ''admin123'')) = failure 400 ''Login failed''
   \<and> fst (adminLogin demoEnv demoStore (demoLogin ''customer@veggiefresh.com'' ''wrong''))
        = failure 403 ''Admin access required''"
proof -
  have "loginAccepted (demoEnv\<lparr>JWT_SECRET := None\<rparr>) demoStore
      (demoLogin ''admin@veggiefresh.com'' ''admin123'') (hd (users demoStore))"
    by (simp add: demo_admin_accepted demoEnv_def)
  moreover have "fst (adminLogin (demoEnv\<lparr>JWT_SECRET := None\<rparr>) demoStore
        (demoLogin ''admin@veggiefresh.com'' ''admin123'')) = failure 400 ''Login failed''"
    by (simp add: login_defs schema_defs mapper_defs demo_defs)
  moreover have "fst (adminLogin demoEnv demoStore (demoLogin ''customer@veggiefresh.com'' ''wrong''))
        = failure 403 ''Admin access required''"
    by (simp add: login_defs schema_defs mapper_defs demo_defs)
  ultimately show ?thesis by simp
qed

text \<open>
  Claim C4, amended. \<open>adminLogin\<close> never changes the store. It answers with an
  access token and a refresh token exactly when the credentials are accepted (the body
  passes the schema; the user found by the submitted email has a non-empty password
  hash and the role admin; the password matches the hash) and \<open>JWT_SECRET\<close> is
  set and not empty; the answer is then 200 and the tokens are the user's identifier
  signed with \<open>JWT_SECRET\<close> for \<open>1d\<close> and for \<open>30d\<close>. Accepted
  credentials with \<open>JWT_SECRET\<close> unset are answered 400 \<open>Login failed\<close>; a
  body that fails the schema 400 \<open>Validation error\<close>; an unknown email or a user
  without password hash 401 \<open>Invalid credentials\<close>; a user with a hash whose role
  is not admin 403 \<open>Admin access required\<close>, whatever the password; an
  administrator whose password does not match 401 \<open>Invalid credentials\<close>.
\<close>

theorem adminLogin_tokens:
  assumes run: "adminLogin E s req = (res, s')"
  shows "s' = s
    \<and> ((\<exists>view access refresh. data res = Some (Login view access refresh))
         \<longleftrightarrow> (\<exists>user. loginAccepted E s req user) \<and> truthy (JWT_SECRET E))
    \<and> (\<forall>user secret. loginAccepted E s req user \<and> JWT_SECRET E = Some secret \<and> secret \<noteq> [] \<longrightarrow>
          res = (succeed 200)\<lparr>data := Some (Login (viewOf user)
                  (jwtSign E (u_id user) secret ''1d'') (jwtSign E (u_id user) secret ''30d''))\<rparr>)
    \<and> ((\<exists>user. loginAccepted E s req user) \<and> \<not> truthy (JWT_SECRET E) \<longrightarrow>
          res = failure 400 ''Login failed'')
    \<and> (\<forall>m. adminLoginSchema E (body req) = Inl m \<longrightarrow> res = failure 400 ''Validation error'')
    \<and> (\<forall>email password. adminLoginSchema E (body req) = Inr (email, password) \<longrightarrow>
         (case findOne (\<lambda>u. u_email u = email) (users s) of
            None \<Rightarrow> res = failure 401 ''Invalid credentials''
          | Some user \<Rightarrow>
              (\<not> truthy (u_passwordHash user) \<longrightarrow> res = failure 401 ''Invalid credentials'')
            \<and> (truthy (u_passwordHash user) \<and> u_role user \<noteq> ''admin'' \<longrightarrow>
                 res = failure 403 ''Admin access required'')
            \<and> (truthy (u_passwordHash user) \<and> u_role user = ''admin''
                 \<and> \<not> bcryptCompare E password (orDefault (u_passwordHash user) []) \<longrightarrow>
                 res = failure 401 ''Invalid credentials'')))"
  using run
proof (cases rule: adminLogin_cases)
  case (invalid m)
  have none: "\<not> loginAccepted E s req u" for u
    using invalid(1) by (auto dest: loginAccepted_valid)
  show ?thesis using invalid none by (simp add: failure_def)
next
  case (unknown email password)
  have none: "\<not> loginAccepted E s req u" for u
    using unknown(1,2) loginAccepted_parsed(1)[of E s req u email password] by auto
  show ?thesis using unknown none by (simp add: failure_def)
next
  case (nohash email password user)
  have none: "\<not> loginAccepted E s req u" for u
    using nohash(1,2,3) loginAccepted_parsed(1,2)[of E s req u email password] by auto
  show ?thesis using nohash none by (simp add: failure_def)
next
  case (notadmin email password user)
  have none: "\<not> loginAccepted E s req u" for u
    using notadmin(1,2,4) loginAccepted_parsed(1,3)[of E s req u email password] by auto
  show ?thesis using notadmin none by (simp add: failure_def)
next
  case (mismatch email password user hash)
  have none: "\<not> loginAccepted E s req u" for u
    using mismatch(1,2,3,6) loginAccepted_parsed(1,4)[of E s req u email password]
    by (auto simp: orDefault_def)
  show ?thesis using mismatch none by (simp add: failure_def truthy_Some orDefault_def)
next
  case (nosecret user)
  obtain email password where parsed: "adminLoginSchema E (body req) = Inr (email, password)"
    using nosecret(1) loginAccepted_valid by blast
  have "\<exists>u. loginAccepted E s req u" using nosecret(1) ..
  then show ?thesis
    using nosecret parsed loginAccepted_parsed[OF nosecret(1) parsed]
    by (auto simp: failure_def truthy_Some)
next
  case (issued user secret)
  obtain email password where parsed: "adminLoginSchema E (body req) = Inr (email, password)"
    using issued(1) loginAccepted_valid by blast
  have only: "u = user" if "loginAccepted E s req u" for u
  proof -
    have "findOne (\<lambda>u. u_email u = email) (users s) = Some u"
      using that parsed by (rule loginAccepted_parsed(1))
    moreover have "findOne (\<lambda>u. u_email u = email) (users s) = Some user"
      using issued(1) parsed by (rule loginAccepted_parsed(1))
    ultimately show ?thesis by simp
  qed
  note facts = loginAccepted_parsed[OF issued(1) parsed]
  have configured: "truthy (JWT_SECRET E)"
    using issued(2,3) by (simp add: truthy_Some)
  have c1: "s' = s" by (rule issued(5))
  have c2: "(\<exists>view access refresh. data res = Some (Login view access refresh))
         \<longleftrightarrow> (\<exists>user. loginAccepted E s req user) \<and> truthy (JWT_SECRET E)"
    using issued(1,4) configured by (auto simp: succeed_def)
  have c3: "\<forall>user secret. loginAccepted E s req user \<and> JWT_SECRET E = Some secret \<and> secret \<noteq> [] \<longrightarrow>
          res = (succeed 200)\<lparr>data := Some (Login (viewOf user)
                  (jwtSign E (u_id user) secret ''1d'') (jwtSign E (u_id user) secret ''30d''))\<rparr>"
    using issued(2,4) only by auto
  have c4: "(\<exists>user. loginAccepted E s req user) \<and> \<not> truthy (JWT_SECRET E) \<longrightarrow>
          res = failure 400 ''Login failed''"
    using configured by simp
  have c5: "\<forall>m. adminLoginSchema E (body req) = Inl m \<longrightarrow> res = failure 400 ''Validation error''"
    using parsed by simp
  have c6: "\<forall>email password. adminLoginSchema E (body req) = Inr (email, password) \<longrightarrow>
         (case findOne (\<lambda>u. u_email u = email) (users s) of
            None \<Rightarrow> res = failure 401 ''Invalid credentials''
          | Some user \<Rightarrow>
              (\<not> truthy (u_passwordHash user) \<longrightarrow> res = failure 401 ''Invalid credentials'')
            \<and> (truthy (u_passwordHash user) \<and> u_role user \<noteq> ''admin'' \<longrightarrow>
                 res = failure 403 ''Admin access required'')
            \<and> (truthy (u_passwordHash user) \<and> u_role user = ''admin''
                 \<and> \<not> bcryptCompare E password (orDefault (u_passwordHash user) []) \<longrightarrow>
                 res = failure 401 ''Invalid credentials''))"
    using parsed facts by simp
  from c1 c2 c3 c4 c5 c6 show ?thesis by blast
qed

text \<open>
  On the example data: the administrator's login is answered with the two signed
  tokens; a wrong password and an unknown email are answered 401.
\<close>

theorem adminLogin_tokens_witness:
  "loginAccepted demoEnv demoStore (demoLogin ''admin@veggiefresh.com'' ''admin123'')
      (hd (users demoStore))
   \<and> adminLogin demoEnv demoStore (demoLogin ''admin@veggiefresh.com'' ''admin123'')
      = ((succeed 200)\<lparr>data := Some (Login (viewOf (hd (users demoStore)))
            ''0000000000000000000000d1.secret.1d'' ''0000000000000000000000d1.secret.30d'')\<rparr>,
         demoStore)
   \<and> fst (adminLogin demoEnv demoStore (demoLogin ''admin@veggiefresh.com'' ''carrot''))
        = failure 401 ''Invalid credentials''
   \<and> fst (adminLogin demoEnv demoStore (demoLogin ''nobody@veggiefresh.com'' ''carrot''))
        = failure 401 ''Invalid credentials''"
proof -
  let ?req = "demoLogin ''admin@veggiefresh.com'' ''admin123''"
  let ?user = "hd (users demoStore)"
  have accepted: "loginAccepted demoEnv demoStore ?req ?user"
    by (simp add: demo_admin_accepted demoEnv_def)
  have secret: "JWT_SECRET demoEnv = Some ''secret''" "''secret'' \<noteq> []"
    by (simp_all add: demoEnv_def)
  have run: "adminLogin demoEnv demoStore ?req
      = (fst (adminLogin demoEnv demoStore ?req), snd (adminLogin demoEnv demoStore ?req))"
    by simp
  from adminLogin_tokens[OF run] accepted secret
  have "snd (adminLogin demoEnv demoStore ?req) = demoStore"
    and "fst (adminLogin demoEnv demoStore ?req)
      = (succeed 200)\<lparr>data := Some (Login (viewOf ?user)
          (jwtSign demoEnv (u_id ?user) ''secret'' ''1d'')
          (jwtSign demoEnv (u_id ?user) ''secret'' ''30d''))\<rparr>"
    by blast+
  then have "adminLogin demoEnv demoStore ?req
      = ((succeed 200)\<lparr>data := Some (Login (viewOf ?user)
            ''0000000000000000000000d1.secret.1d'' ''0000000000000000000000d1.secret.30d'')\<rparr>,
         demoStore)"
    by (simp add: demoEnv_def demoStore_def prod_eq_iff)
  moreover have "fst (adminLogin demoEnv demoStore (demoLogin ''admin@veggiefresh.com'' ''carrot''))
        = failure 401 ''Invalid credentials''"
    "fst (adminLogin demoEnv demoStore (demoLogin ''nobody@veggiefresh.com'' ''carrot''))
        = failure 401 ''Invalid credentials''"
    by (simp_all add: login_defs schema_defs mapper_defs demo_defs)
  ultimately show ?thesis using accepted by simp
qed

text \<open>
  Claim C5. Of the routes registered by the four routers, only \<open>POST /login\<close> of
  the auth router has no middleware; every other route (the \<open>/me\<close> route and all
  routes of categories, products and orders) registers \<open>authenticateToken\<close>, then
  \<open>requireAdmin\<close>, then its controller. So whenever a controller other than
  \<open>adminLogin\<close> runs for a request, \<open>authenticateToken\<close> and then
  \<open>requireAdmin\<close> ran before it and both called \<open>next\<close>, and the response
  and the store are the controller's.
\<close>

theorem controllers_behind_middlewares:
  "list_all (\<lambda>(prefix, router).
      list_all (\<lambda>(v, pattern, handlers).
          (prefix = ''auth'' \<and> v = POST \<and> pattern = [Lit ''login'']
             \<and> handlers = [Controller AdminLogin])
          \<or> (\<exists>c. c \<noteq> AdminLogin \<and> handlers = guarded c)) router) mounts
   \<and> (app E s req = (trace, res, s') \<and> Controller c \<in> set trace \<and> c \<noteq> AdminLogin \<longrightarrow>
        (\<exists>req1 req2 req3. authenticateToken E s req1 = Next req2
             \<and> requireAdmin E s req2 = Next req3
             \<and> trace = [AuthenticateToken, RequireAdmin, Controller c]
             \<and> res = Some (fst (controllerOf c E s req3))
             \<and> s' = snd (controllerOf c E s req3)))"
proof (intro conjI impI)
  show "list_all (\<lambda>(prefix, router).
      list_all (\<lambda>(v, pattern, handlers).
          (prefix = ''auth'' \<and> v = POST \<and> pattern = [Lit ''login'']
             \<and> handlers = [Controller AdminLogin])
          \<or> (\<exists>c. c \<noteq> AdminLogin \<and> handlers = guarded c)) router) mounts"
    by (rule routers_guarded)
next
  assume run: "app E s req = (trace, res, s') \<and> Controller c \<in> set trace \<and> c \<noteq> AdminLogin"
  then obtain first rest where path: "reqPath req = first # rest"
    by (cases "reqPath req") (auto simp: app_def)
  with run obtain router where mounted: "map_of mounts (lowerCase first) = Some router"
    by (cases "map_of mounts (lowerCase first)") (auto simp: app_def)
  then have "(lowerCase first, router) \<in> set mounts" by (rule map_of_SomeD)
  with routers_guarded
  have "list_all (\<lambda>route. snd (snd route) = [Controller AdminLogin]
                       \<or> (\<exists>c. snd (snd route) = guarded c)) router"
    by (fastforce simp: list_all_iff)
  moreover from run path mounted
  have "dispatch E router s (req\<lparr>reqPath := rest\<rparr>) = (trace, res, s')"
    by (simp add: app_def)
  ultimately have "\<exists>req1 req2 req3. authenticateToken E s req1 = Next req2
             \<and> requireAdmin E s req2 = Next req3
             \<and> trace = guarded c
             \<and> res = Some (fst (controllerOf c E s req3))
             \<and> s' = snd (controllerOf c E s req3)"
    using run by (intro dispatch_guarded) simp_all
  then show "\<exists>req1 req2 req3. authenticateToken E s req1 = Next req2
             \<and> requireAdmin E s req2 = Next req3
             \<and> trace = [AuthenticateToken, RequireAdmin, Controller c]
             \<and> res = Some (fst (controllerOf c E s req3))
             \<and> s' = snd (controllerOf c E s req3)"
    by (simp add: guarded_def)
qed

text \<open>
  On the example data: \<open>GET /orders/stats\<close> with the accepted header runs the two
  middlewares and then the controller; without the header it stops at the first
  middleware.
\<close>

theorem controllers_behind_middlewares_witness:
  "fst (app demoEnv demoStore (demoCall GET [''orders'', ''stats''] (Some ''Bearer admin'')))
     = [AuthenticateToken, RequireAdmin, Controller GetOrderStats]
   \<and> (\<exists>req1 req2 req3. authenticateToken demoEnv demoStore req1 = Next req2
         \<and> requireAdmin demoEnv demoStore req2 = Next req3
         \<and> snd (app demoEnv demoStore (demoCall GET [''orders'', ''stats''] (Some ''Bearer admin'')))
           = (Some (fst (controllerOf GetOrderStats demoEnv demoStore req3)),
              snd (controllerOf GetOrderStats demoEnv demoStore req3)))
   \<and> fst (app demoEnv demoStore (demoCall GET [''orders'', ''stats''] None)) = [AuthenticateToken]"
proof -
  let ?out = "app demoEnv demoStore (demoCall GET [''orders'', ''stats''] (Some ''Bearer admin''))"
  have "app demoEnv demoStore (demoCall GET [''orders'', ''stats''] (Some ''Bearer admin''))
          = (fst ?out, fst (snd ?out), snd (snd ?out))"
    by (metis prod.collapse)
  moreover have "Controller GetOrderStats \<in> set (fst ?out)" "GetOrderStats \<noteq> AdminLogin"
    by (simp_all add: demo_stats_trace)
  ultimately have "app demoEnv demoStore (demoCall GET [''orders'', ''stats''] (Some ''Bearer admin''))
          = (fst ?out, fst (snd ?out), snd (snd ?out))
        \<and> Controller GetOrderStats \<in> set (fst ?out) \<and> GetOrderStats \<noteq> AdminLogin"
    by blast
  with controllers_behind_middlewares[of demoEnv demoStore
      "demoCall GET [''orders'', ''stats''] (Some ''Bearer admin'')"
      "fst ?out" "fst (snd ?out)" "snd (snd ?out)" GetOrderStats]
  have "\<exists>req1 req2 req3. authenticateToken demoEnv demoStore req1 = Next req2
         \<and> requireAdmin demoEnv demoStore req2 = Next req3
         \<and> fst ?out = [AuthenticateToken, RequireAdmin, Controller GetOrderStats]
         \<and> fst (snd ?out) = Some (fst (controllerOf GetOrderStats demoEnv demoStore req3))
         \<and> snd (snd ?out) = snd (controllerOf GetOrderStats demoEnv demoStore req3)"
    by blast
  then show ?thesis
    using demo_stats_refused by (metis prod.collapse)
qed



text \<open>
  Claim C7. \<open>getCategories\<close> answers 200 with every stored category, each exactly
  once (no paging, no filter), ordered by \<open>sort\<close> ascending and, where \<open>sort\<close>
  is equal, by \<open>name\<close> ascending; the store is left as it was.
\<close>

theorem getCategories_sorted:
  "\<exists>cs. getCategories E s req = ((succeed 200)\<lparr>data := Some (CategoryList cs)\<rparr>, s)
        \<and> mset cs = mset (categories s)
        \<and> length cs = length (categories s)
        \<and> sorted_wrt (\<lambda>a b. c_sort a < c_sort b
                              \<or> (c_sort a = c_sort b \<and> c_name a \<le> c_name b)) cs"
proof -
  let ?cs = "sort_key (\<lambda>c. (c_sort c, c_name c)) (categories s)"
  have "getCategories E s req = ((succeed 200)\<lparr>data := Some (CategoryList ?cs)\<rparr>, s)"
    by (simp add: getCategories_def catching_def)
  moreover have "mset ?cs = mset (categories s)" by simp
  moreover have "length ?cs = length (categories s)" by simp
  moreover have "sorted_wrt (\<lambda>a b. c_sort a < c_sort b
                    \<or> (c_sort a = c_sort b \<and> c_name a \<le> c_name b)) ?cs"
    by (rule sorted_wrt_key) simp
  ultimately show ?thesis by blast
qed

text \<open>
  On a store with three categories: the one with the smallest \<open>sort\<close> comes
  first, and of the two with equal \<open>sort\<close> the one whose name is smaller.
\<close>

theorem getCategories_sorted_witness:
  "getCategories demoEnv demoShelf (demoRequest [] None) =
     ((succeed 200)\<lparr>data := Some (CategoryList
        [\<lparr>c_id = ''0000000000000000000000c3'', c_name = ''Greens'', c_iconUrl = None,
          c_sort = 0, c_isActive = False\<rparr>,
         \<lparr>c_id = ''0000000000000000000000c2'', c_name = ''Berries'', c_iconUrl = None,
          c_sort = 1, c_isActive = True\<rparr>,
         \<lparr>c_id = ''0000000000000000000000c1'', c_name = ''Fruits'', c_iconUrl = None,
          c_sort = 1, c_isActive = True\<rparr>])\<rparr>, demoShelf)
   \<and> length (categories demoShelf) = 3"
  using getCategories_sorted[of demoEnv demoShelf "demoRequest [] None"]
  by (simp add: demo_sorted) (simp add: demoShelf_def)

text \<open>
  Claim C8. When \<open>updateCategory\<close>, \<open>updateProduct\<close> or
  \<open>updateOrderStatus\<close> answers 400 or 404, the store after the request is the
  store before it.
\<close>

theorem updates_atomic_on_error:
  assumes "c = UpdateCategory \<or> c = UpdateProduct \<or> c = UpdateOrderStatus"
    and "controllerOf c E s req = (res, s')"
    and "status res = 400 \<or> status res = 404"
  shows "s' = s"
proof -
  consider (cat) "c = UpdateCategory" | (prod) "c = UpdateProduct" | (ord) "c = UpdateOrderStatus"
    using assms(1) by blast
  then show ?thesis
  proof cases
    case cat
    with assms(2) have "updateCategory E s req = (res, s')" by simp
    then show ?thesis using assms(3)
      by (cases rule: updateCategory_cases) (auto simp: succeed_def)
  next
    case prod
    with assms(2) have "updateProduct E s req = (res, s')" by simp
    then show ?thesis using assms(3)
      by (cases rule: updateProduct_cases) auto
  next
    case ord
    with assms(2) have "updateOrderStatus E s req = (res, s')" by simp
    then show ?thesis using assms(3)
      by (cases rule: updateOrderStatus_cases) auto
  qed
qed

text \<open>
  On the example store: renaming the second category to the first one's name is
  answered 400 and nothing is written.
\<close>

theorem updates_atomic_on_error_witness:
  "status (fst (controllerOf UpdateCategory demoEnv demoStore
      (demoRequest ''0000000000000000000000c2'' (Some (JObj [(''name'', JStr ''Fruits'')]))))) = 400
   \<and> snd (controllerOf UpdateCategory demoEnv demoStore
      (demoRequest ''0000000000000000000000c2'' (Some (JObj [(''name'', JStr ''Fruits'')])))) = demoStore"
  using updates_atomic_on_error[of UpdateCategory demoEnv demoStore
      "demoRequest ''0000000000000000000000c2'' (Some (JObj [(''name'', JStr ''Fruits'')]))"
      "fst (updateCategory demoEnv demoStore
        (demoRequest ''0000000000000000000000c2'' (Some (JObj [(''name'', JStr ''Fruits'')]))))"
      "snd (updateCategory demoEnv demoStore
        (demoRequest ''0000000000000000000000c2'' (Some (JObj [(''name'', JStr ''Fruits'')]))))"]
  by (simp add: updateCategory_def updateCategorySchema_def nameIsTaken_def
      schema_defs mapper_defs demo_defs Let_def)



end
